theory Spec2Isabelle
  imports Main "HOL-Library.Word" "HOL-Library.Signed_Division"
begin

unbundle bit_operations_syntax

section \<open>Go values used by the adapter\<close>

subsection \<open>Strings\<close>

text \<open>
  A Go string is a sequence of bytes: \<^typ>\<open>string\<close>. \<^verbatim>\<open>strings.HasPrefix\<close> and
  \<^verbatim>\<open>strings.TrimPrefix\<close> of the standard library: the prefix is removed once when it
  is there, and the string is returned as it is otherwise.
\<close>

definition strings_HasPrefix :: "string \<Rightarrow> string \<Rightarrow> bool" where
  "strings_HasPrefix s p = (length p \<le> length s \<and> take (length p) s = p)"

definition strings_TrimPrefix :: "string \<Rightarrow> string \<Rightarrow> string" where
  "strings_TrimPrefix s p = (if strings_HasPrefix s p then drop (length p) s else s)"

subsection \<open>Errors\<close>

text \<open>
  An \<^verbatim>\<open>error\<close> is an interface value; the adapter inspects its dynamic type with type
  assertions, so the model keeps one constructor for each dynamic type that the source
  builds or tests. Each value carries the text its \<^verbatim>\<open>Error()\<close> method prints, where the
  source does not fix it.

  \<^item> \<open>ErrorCode\<close>: a sentinel of go-storage (\<^verbatim>\<open>services.ErrUnexpected\<close>,
    \<^verbatim>\<open>services.ErrPermissionDenied\<close>, \<^verbatim>\<open>services.ErrObjectNotExist\<close>);
  \<^item> \<open>PairUnsupportedError\<close>, \<open>ListModeInvalidError\<close>, \<open>InternalError\<close>: the structured
    errors of go-storage; with the sentinels they are the values that implement the
    interface \<^verbatim>\<open>services.InternalError\<close>;
  \<^item> \<open>ServerErrorPtr\<close>: a \<^verbatim>\<open>*uerr.ServerError\<close> that is not nil, \<open>ServerErrorVal\<close>: a
    \<^verbatim>\<open>uerr.ServerError\<close> held by value; both carry the backend's return code. A type
    assertion to one of the two types does not succeed on a value of the other;
  \<^item> \<open>ServerErrorNil\<close>: the nil pointer of type \<^verbatim>\<open>*uerr.ServerError\<close> held in the
    interface: the assertion to the pointer type succeeds on it, and a call of its
    method \<^verbatim>\<open>Code\<close> dereferences nil and panics;
  \<^item> \<open>WrapError msg e\<close>: the \<^verbatim>\<open>*fmt.wrapError\<close> that \<^verbatim>\<open>fmt.Errorf\<close> returns for a format
    with one \<^verbatim>\<open>%w\<close>: its text is \<open>msg\<close> and \<^verbatim>\<open>Unwrap()\<close> gives \<open>e\<close>;
  \<^item> \<open>NumError\<close>: the \<^verbatim>\<open>*strconv.NumError\<close> of \<^verbatim>\<open>strconv.ParseInt\<close>;
  \<^item> \<open>IterateDone\<close>: the sentinel \<^verbatim>\<open>types.IterateDone\<close> of the iterator protocol, an
    error code of go-storage, which implements \<^verbatim>\<open>services.InternalError\<close> as well;
  \<^item> \<open>PlainError\<close>: any other error (\<^verbatim>\<open>errors.New\<close>, a transport error, a
    \<^verbatim>\<open>*time.ParseError\<close>).

  A nil error is \<open>None\<close> of \<open>go_error option\<close>.
\<close>

datatype num_error = ErrSyntax | ErrRange

datatype Pair = WithObjectMode "32 word"

datatype go_error =
    ErrorCode string
  | PairUnsupportedError Pair
  | ListModeInvalidError "8 word"
  | InternalError string
  | ServerErrorPtr int string
  | ServerErrorVal int string
  | ServerErrorNil
  | WrapError string go_error
  | NumError num_error string
  | IterateDone
  | PlainError string

definition ErrUnexpected :: go_error where
  "ErrUnexpected = ErrorCode ''unexpected''"

definition ErrPermissionDenied :: go_error where
  "ErrPermissionDenied = ErrorCode ''permission denied''"

definition ErrObjectNotExist :: go_error where
  "ErrObjectNotExist = ErrorCode ''object not exist''"

text \<open>The type assertion \<^verbatim>\<open>err.(services.InternalError)\<close>.\<close>

fun is_InternalError :: "go_error \<Rightarrow> bool" where
  "is_InternalError (ErrorCode _) = True"
| "is_InternalError (PairUnsupportedError _) = True"
| "is_InternalError (ListModeInvalidError _) = True"
| "is_InternalError (InternalError _) = True"
| "is_InternalError IterateDone = True"
| "is_InternalError _ = False"

text \<open>
  The method \<^verbatim>\<open>Error()\<close>, which the verb \<^verbatim>\<open>%v\<close> prints. The adapter prints only errors
  that are no go-storage errors; the texts of the two structured errors are shortened
  here. The text of a \<open>NumError\<close> quotes the number; the escapes that \<^verbatim>\<open>strconv.Quote\<close>
  adds to bytes outside printable ASCII are left out. For a nil pointer the verb prints
  \<^verbatim>\<open><nil>\<close>.
\<close>

fun Error :: "go_error \<Rightarrow> string" where
  "Error (ErrorCode s) = s"
| "Error (PairUnsupportedError p) = ''pair unsupported''"
| "Error (ListModeInvalidError m) = ''list mode invalid''"
| "Error (InternalError s) = s"
| "Error (ServerErrorPtr c s) = s"
| "Error (ServerErrorVal c s) = s"
| "Error ServerErrorNil = ''<nil>''"
| "Error (WrapError s e) = s"
| "Error (NumError k s) =
     ''strconv.ParseInt: parsing '' @ [CHR 0x22] @ s @ [CHR 0x22] @ '': '' @
     (case k of ErrSyntax \<Rightarrow> ''invalid syntax'' | ErrRange \<Rightarrow> ''value out of range'')"
| "Error IterateDone = ''iterate is done''"
| "Error (PlainError s) = s"

text \<open>
  \<^verbatim>\<open>errors.Unwrap\<close>. The wrapper of \<^verbatim>\<open>fmt.Errorf\<close> has a cause; the sentinels, the SDK's
  errors and the plain errors have none. (The structured errors of go-storage unwrap to
  sentinels of their own; the adapter returns them as they are, and the model gives
  them no cause.)
\<close>

fun Unwrap :: "go_error \<Rightarrow> go_error option" where
  "Unwrap (WrapError s e) = Some e"
| "Unwrap _ = None"

text \<open>
  The chain that \<^verbatim>\<open>errors.Is\<close> and \<^verbatim>\<open>errors.As\<close> walk: the error, then its cause, and so
  on. An error can be recovered from another one exactly when it is on that chain.
\<close>

fun chain :: "go_error \<Rightarrow> go_error list" where
  "chain (WrapError s e) = WrapError s e # chain e"
| "chain e = [e]"

definition errors_Is :: "go_error \<Rightarrow> go_error \<Rightarrow> bool" where
  "errors_Is err target = (target \<in> set (chain err))"

text \<open>A call either returns a value or panics.\<close>

datatype 'a outcome = Panic | Returns 'a

text \<open>\<^verbatim>\<open>fmt.Errorf("%w, %v", kind, err)\<close>.\<close>

definition Errorf_w_v :: "go_error \<Rightarrow> go_error \<Rightarrow> go_error" where
  "Errorf_w_v kind err = WrapError (Error kind @ '', '' @ Error err) kind"

subsection \<open>strconv.ParseInt(s, 10, 64)\<close>

text \<open>
  The standard library's loop over the digits: a byte that is no decimal digit is a
  syntax error where the loop meets it, a value beyond 64 bits a range error where it
  arises; the sign is read first and the signed range is checked last.
\<close>

definition isDigit :: "char \<Rightarrow> bool" where
  "isDigit c = ((48::nat) \<le> of_char c \<and> of_char c \<le> (57::nat))"

fun ParseUint_loop :: "string \<Rightarrow> nat \<Rightarrow> num_error + nat" where
  "ParseUint_loop [] n = Inr n"
| "ParseUint_loop (c # cs) n =
     (if \<not> isDigit c then Inl ErrSyntax
      else if n \<ge> (2 ^ 64 - 1) div 10 + 1 then Inl ErrRange
      else (let n1 = n * 10 + ((of_char c :: nat) - 48)
            in if n1 > 2 ^ 64 - 1 then Inl ErrRange else ParseUint_loop cs n1))"

definition ParseUint :: "string \<Rightarrow> num_error + nat" where
  "ParseUint s = (if s = [] then Inl ErrSyntax else ParseUint_loop s 0)"

definition ParseInt :: "string \<Rightarrow> go_error + int" where
  "ParseInt s0 =
     (if s0 = [] then Inl (NumError ErrSyntax s0)
      else (let neg = (hd s0 = CHR ''-'');
                s = (if hd s0 = CHR ''+'' \<or> hd s0 = CHR ''-'' then tl s0 else s0)
            in case ParseUint s of
                 Inl ErrSyntax \<Rightarrow> Inl (NumError ErrSyntax s0)
               | Inl ErrRange \<Rightarrow> Inl (NumError ErrRange s0)
               | Inr un \<Rightarrow>
                   (if \<not> neg \<and> un \<ge> 2 ^ 63 then Inl (NumError ErrRange s0)
                    else if neg \<and> un > 2 ^ 63 then Inl (NumError ErrRange s0)
                    else Inr (if neg then - int un else int un))))"

subsection \<open>Time\<close>

text \<open>
  A \<^verbatim>\<open>time.Time\<close> as the instant it denotes: seconds since the Unix epoch and the
  nanoseconds within the second. \<^verbatim>\<open>time.Unix\<close> brings the nanoseconds into range.
\<close>

datatype Time = UnixTime (unixSec: int) (unixNsec: int)

definition time_Unix :: "int \<Rightarrow> int \<Rightarrow> Time" where
  "time_Unix sec nsec =
     (if nsec < 0 \<or> nsec \<ge> 1000000000 then
        (let n = nsec sdiv 1000000000;
             sec1 = sec + n;
             nsec1 = nsec - n * 1000000000
         in if nsec1 < 0 then UnixTime (sec1 - 1) (nsec1 + 1000000000)
            else UnixTime sec1 nsec1)
      else UnixTime sec nsec)"

definition RFC1123 :: string where
  "RFC1123 = ''Mon, 02 Jan 2006 15:04:05 MST''"

section \<open>The data model\<close>

subsection \<open>The portable object of go-storage\<close>

text \<open>
  \<^verbatim>\<open>types.ObjectMode\<close> is a \<^verbatim>\<open>uint32\<close> of bit flags and \<^verbatim>\<open>types.ListMode\<close> a \<^verbatim>\<open>uint8\<close>;
  both enumerate their flags with \<^verbatim>\<open>1 << iota\<close>, the directory flag first.
\<close>

type_synonym ObjectMode = "32 word"

definition ModeDir :: ObjectMode where
  "ModeDir = 1"

definition ModeRead :: ObjectMode where
  "ModeRead = 2"

definition ObjectMode_IsDir :: "ObjectMode \<Rightarrow> bool" where
  "ObjectMode_IsDir m = (m AND ModeDir \<noteq> 0)"

definition ObjectMode_IsRead :: "ObjectMode \<Rightarrow> bool" where
  "ObjectMode_IsRead m = (m AND ModeRead \<noteq> 0)"

type_synonym ListMode = "8 word"

definition ListModeDir :: ListMode where
  "ListModeDir = 1"

definition ListModePrefix :: ListMode where
  "ListModePrefix = 2"

definition ListMode_IsDir :: "ListMode \<Rightarrow> bool" where
  "ListMode_IsDir l = (l AND ListModeDir \<noteq> 0)"

definition ListMode_IsPrefix :: "ListMode \<Rightarrow> bool" where
  "ListMode_IsPrefix l = (l AND ListModePrefix \<noteq> 0)"

record ObjectSystemMetadata =
  sm_StorageClass :: string

text \<open>
  \<^verbatim>\<open>types.Object\<close>: the public fields \<open>ID\<close>, \<open>Path\<close> and \<open>Mode\<close>, the flag \<open>done\<close> given to
  \<^verbatim>\<open>types.NewObject\<close>, and the optional attributes, which are unset (\<open>None\<close>) until
  their setter is called.
\<close>

record Object =
  ID :: string
  Path :: string
  Mode :: ObjectMode
  done' :: bool
  contentLength :: "int option"
  lastModified :: "Time option"
  contentType :: "string option"
  etag :: "string option"
  systemMetadata :: "ObjectSystemMetadata option"

definition NewObject :: "bool \<Rightarrow> Object" where
  "NewObject d =
     \<lparr>ID = [], Path = [], Mode = 0, done' = d, contentLength = None, lastModified = None,
      contentType = None, etag = None, systemMetadata = None\<rparr>"

subsection \<open>The backend SDK\<close>

text \<open>
  \<^verbatim>\<open>us3.ObjectInfo\<close>, \<^verbatim>\<open>us3.CommonPreInfo\<close> and the response of \<^verbatim>\<open>ListObjects\<close>, with the
  fields that the adapter reads.
\<close>

record ObjectInfo =
  Key :: string
  Size :: string
  LastModified :: int
  Etag :: string
  StorageClass :: string

record CommonPreInfo =
  Prefix :: string

record ListObjectResponse =
  IsTruncated :: bool
  NextMarker :: string
  Contents :: "ObjectInfo list"
  CommonPrefixes :: "CommonPreInfo list"

text \<open>
  The client \<^verbatim>\<open>*us3.UFileRequest\<close>. The backend is outside the program: the state
  \<open>'c\<close> stands for the remote service together with the client's mutable fields, and
  each call of the SDK is a function that answers and moves that state. A response
  header is read through \<^verbatim>\<open>Get\<close> only, so it is given as that function.
\<close>

type_synonym Header = "string \<Rightarrow> string"

record 'c UFileRequest =
  DeleteFile :: "string \<Rightarrow> 'c \<Rightarrow> go_error option \<times> 'c"
  HeadFile :: "string \<Rightarrow> 'c \<Rightarrow> go_error option \<times> 'c"
  ListObjects ::
    "string \<Rightarrow> string \<Rightarrow> string \<Rightarrow> int \<Rightarrow> 'c \<Rightarrow> (go_error + ListObjectResponse) \<times> 'c"
  GetPrivateURL :: "string \<Rightarrow> int \<Rightarrow> 'c \<Rightarrow> string"
  Download :: "string \<Rightarrow> 'c \<Rightarrow> go_error option \<times> 'c"
  LastResponseHeader :: "'c \<Rightarrow> Header"
  LastResponseBody :: "'c \<Rightarrow> 8 word list"

section \<open>utils.go\<close>

record StorageFeatures =
  VirtualDir :: bool

record 'c Storage =
  client :: "'c UFileRequest"
  bucket :: string
  workDir :: string
  features :: StorageFeatures

definition AccessDenied :: int where
  "AccessDenied = - 148643"

definition NoSuchKey :: int where
  "NoSuchKey = - 148654"

text \<open>
  \<^verbatim>\<open>formatError\<close>: an error of go-storage passes as it is; a \<^verbatim>\<open>*uerr.ServerError\<close> is
  mapped by its code, and the call of \<^verbatim>\<open>Code\<close> panics when the pointer is nil; everything
  else is unexpected.
\<close>

fun formatError :: "go_error \<Rightarrow> go_error outcome" where
  "formatError err =
     (if is_InternalError err then Returns err
      else (case err of
              ServerErrorPtr code msg \<Rightarrow>
                (if code = AccessDenied then Returns (Errorf_w_v ErrPermissionDenied err)
                 else if code = NoSuchKey then Returns (Errorf_w_v ErrObjectNotExist err)
                 else Returns (Errorf_w_v ErrUnexpected err))
            | ServerErrorNil \<Rightarrow> Panic
            | _ \<Rightarrow> Returns (Errorf_w_v ErrUnexpected err)))"

definition getAbsPath :: "'c Storage \<Rightarrow> string \<Rightarrow> string" where
  "getAbsPath s path = (let prefix = strings_TrimPrefix (workDir s) ''/'' in prefix @ path)"

definition getRelPath :: "'c Storage \<Rightarrow> string \<Rightarrow> string" where
  "getRelPath s path =
     (let prefix = strings_TrimPrefix (workDir s) ''/'' in strings_TrimPrefix path prefix)"

definition newObject :: "'c Storage \<Rightarrow> bool \<Rightarrow> Object" where
  "newObject s d = NewObject d"

text \<open>
  \<^verbatim>\<open>formatFileObject\<close>. The division of the millisecond timestamp by 1000 is Go's, which
  truncates towards zero; it cannot overflow, so the timestamp is an \<^typ>\<open>int\<close>.
\<close>

definition formatFileObject :: "'c Storage \<Rightarrow> ObjectInfo \<Rightarrow> go_error + Object" where
  "formatFileObject s v =
     (let o1 = newObject s False;
          o2 = o1\<lparr>ID := Key v\<rparr>;
          o3 = o2\<lparr>Path := getRelPath s (Key v)\<rparr>;
          o4 = o3\<lparr>Mode := Mode o3 OR ModeRead\<rparr>
      in case ParseInt (Size v) of
           Inl err \<Rightarrow> Inl err
         | Inr len \<Rightarrow>
             (let o5 = o4\<lparr>contentLength := Some len\<rparr>;
                  lm = time_Unix (LastModified v sdiv 1000) 0;
                  o6 = o5\<lparr>lastModified := Some lm\<rparr>;
                  o7 = (if Etag v \<noteq> [] then o6\<lparr>etag := Some (Etag v)\<rparr> else o6);
                  sm = (if StorageClass v \<noteq> [] then \<lparr>sm_StorageClass = StorageClass v\<rparr>
                        else \<lparr>sm_StorageClass = []\<rparr>)
              in Inr (o7\<lparr>systemMetadata := Some sm\<rparr>)))"

section \<open>The listing cursor\<close>

record objectPageStatus =
  prefix :: string
  maxKeys :: int
  delimiter :: string
  marker :: string

definition ContinuationToken :: "objectPageStatus \<Rightarrow> string" where
  "ContinuationToken i = marker i"

text \<open>\<^verbatim>\<open>types.ObjectPage\<close>: the cursor and the objects of the page being filled.\<close>

record ObjectPage =
  Status :: objectPageStatus
  Data :: "Object list"

section \<open>The storage operations\<close>

text \<open>
  The generated option records: \<^verbatim>\<open>pairStorageCreate\<close>, \<^verbatim>\<open>pairStorageDelete\<close> and
  \<^verbatim>\<open>pairStorageStat\<close> carry an optional object mode, \<^verbatim>\<open>pairStorageList\<close> an optional
  list mode, \<^verbatim>\<open>pairStorageRead\<close> an optional I/O callback.
\<close>

record pairObjectMode =
  HasObjectMode :: bool
  ObjectMode :: ObjectMode

type_synonym pairStorageCreate = pairObjectMode
type_synonym pairStorageDelete = pairObjectMode
type_synonym pairStorageStat = pairObjectMode

record pairStorageList =
  HasListMode :: bool
  ListMode :: ListMode

record pairStorageRead =
  HasIoCallback :: bool

definition create :: "'c Storage \<Rightarrow> string \<Rightarrow> pairStorageCreate \<Rightarrow> Object option" where
  "create s path opt =
     (let rp = getAbsPath s path
      in if HasObjectMode opt \<and> ObjectMode_IsDir (ObjectMode opt) then
           (if \<not> VirtualDir (features s) then None
            else (let rp1 = rp @ ''/'';
                      o1 = newObject s True;
                      o2 = o1\<lparr>Mode := Mode o1 OR ModeDir\<rparr>;
                      o3 = o2\<lparr>ID := rp1\<rparr>
                  in Some (o3\<lparr>Path := path\<rparr>)))
         else (let o1 = newObject s False;
                   o2 = o1\<lparr>Mode := Mode o1 OR ModeRead\<rparr>;
                   o3 = o2\<lparr>ID := rp\<rparr>
               in Some (o3\<lparr>Path := path\<rparr>)))"

text \<open>
  \<^verbatim>\<open>delete\<close>: the error of \<^verbatim>\<open>DeleteFile\<close> is dropped when it is a \<^verbatim>\<open>uerr.ServerError\<close>
  (asserted by value) whose code is \<^verbatim>\<open>NoSuchKey\<close>, and returned as it is otherwise.
\<close>

definition delete :: "'c Storage \<Rightarrow> string \<Rightarrow> pairStorageDelete \<Rightarrow> 'c \<Rightarrow> go_error option \<times> 'c" where
  "delete s path opt c =
     (let rp = getAbsPath s path;
          dir = (HasObjectMode opt \<and> ObjectMode_IsDir (ObjectMode opt))
      in if dir \<and> \<not> VirtualDir (features s)
         then (Some (PairUnsupportedError (WithObjectMode (ObjectMode opt))), c)
         else (let rp1 = (if dir then rp @ ''/'' else rp)
               in case DeleteFile (client s) rp1 c of
                    (None, c1) \<Rightarrow> (None, c1)
                  | (Some err, c1) \<Rightarrow>
                      (case err of
                         ServerErrorVal code msg \<Rightarrow>
                           (if code = NoSuchKey then (None, c1) else (Some err, c1))
                       | _ \<Rightarrow> (Some err, c1))))"

text \<open>
  \<^verbatim>\<open>list\<close> builds the cursor and chooses the page function; the iterator of go-storage
  then calls that function.
\<close>

datatype NextObjectFunc = ByDir | ByPrefix

definition list' ::
  "'c Storage \<Rightarrow> string \<Rightarrow> pairStorageList \<Rightarrow> go_error + (NextObjectFunc \<times> objectPageStatus)" where
  "list' s path opt =
     (let input = \<lparr>prefix = getAbsPath s path, maxKeys = 200, delimiter = [], marker = []\<rparr>;
          mode = (if \<not> HasListMode opt then ListModePrefix else ListMode opt)
      in if ListMode_IsDir mode then Inr (ByDir, input\<lparr>delimiter := ''/''\<rparr>)
         else if ListMode_IsPrefix mode then Inr (ByPrefix, input)
         else Inl (ListModeInvalidError mode))"

text \<open>The two loops of the page functions; each appends to the page's data.\<close>

definition dirObject :: "'c Storage \<Rightarrow> CommonPreInfo \<Rightarrow> Object" where
  "dirObject s v =
     (let o1 = newObject s True;
          o2 = o1\<lparr>ID := Prefix v\<rparr>;
          o3 = o2\<lparr>Path := getRelPath s (Prefix v)\<rparr>
      in o3\<lparr>Mode := Mode o3 OR ModeDir\<rparr>)"

fun appendDirs :: "'c Storage \<Rightarrow> CommonPreInfo list \<Rightarrow> Object list \<Rightarrow> Object list" where
  "appendDirs s [] data = data"
| "appendDirs s (v # vs) data = appendDirs s vs (data @ [dirObject s v])"

fun appendFiles ::
  "'c Storage \<Rightarrow> ObjectInfo list \<Rightarrow> Object list \<Rightarrow> go_error option \<times> Object list" where
  "appendFiles s [] data = (None, data)"
| "appendFiles s (v # vs) data =
     (case formatFileObject s v of
        Inl err \<Rightarrow> (Some err, data)
      | Inr o1 \<Rightarrow> appendFiles s vs (data @ [o1]))"

text \<open>
  The end of both page functions: \<^verbatim>\<open>IterateDone\<close> on an empty \<^verbatim>\<open>NextMarker\<close>, then on a
  response that is not truncated; the marker is stored otherwise.
\<close>

definition nextObjectPageByDir ::
  "'c Storage \<Rightarrow> ObjectPage \<Rightarrow> 'c \<Rightarrow> go_error option \<times> ObjectPage \<times> 'c" where
  "nextObjectPageByDir s page c =
     (let input = Status page
      in case ListObjects (client s) (prefix input) (marker input) (delimiter input)
                (maxKeys input) c of
           (Inl err, c1) \<Rightarrow> (Some err, page, c1)
         | (Inr output, c1) \<Rightarrow>
             (let data1 = appendDirs s (CommonPrefixes output) (Data page)
              in case appendFiles s (Contents output) data1 of
                   (Some err, data2) \<Rightarrow> (Some err, page\<lparr>Data := data2\<rparr>, c1)
                 | (None, data2) \<Rightarrow>
                     (let page2 = page\<lparr>Data := data2\<rparr>
                      in if NextMarker output = [] then (Some IterateDone, page2, c1)
                         else if \<not> IsTruncated output then (Some IterateDone, page2, c1)
                         else (None, page2\<lparr>Status := input\<lparr>marker := NextMarker output\<rparr>\<rparr>, c1))))"

definition nextObjectPageByPrefix ::
  "'c Storage \<Rightarrow> ObjectPage \<Rightarrow> 'c \<Rightarrow> go_error option \<times> ObjectPage \<times> 'c" where
  "nextObjectPageByPrefix s page c =
     (let input = Status page
      in case ListObjects (client s) (prefix input) (marker input) (delimiter input)
                (maxKeys input) c of
           (Inl err, c1) \<Rightarrow> (Some err, page, c1)
         | (Inr output, c1) \<Rightarrow>
             (case appendFiles s (Contents output) (Data page) of
                (Some err, data2) \<Rightarrow> (Some err, page\<lparr>Data := data2\<rparr>, c1)
              | (None, data2) \<Rightarrow>
                  (let page2 = page\<lparr>Data := data2\<rparr>
                   in if NextMarker output = [] then (Some IterateDone, page2, c1)
                      else if \<not> IsTruncated output then (Some IterateDone, page2, c1)
                      else (None, page2\<lparr>Status := input\<lparr>marker := NextMarker output\<rparr>\<rparr>, c1))))"

definition nextPage ::
  "NextObjectFunc \<Rightarrow> 'c Storage \<Rightarrow> ObjectPage \<Rightarrow> 'c \<Rightarrow> go_error option \<times> ObjectPage \<times> 'c" where
  "nextPage f s page c =
     (case f of ByDir \<Rightarrow> nextObjectPageByDir s page c | ByPrefix \<Rightarrow> nextObjectPageByPrefix s page c)"

subsection \<open>read\<close>

text \<open>
  Readers. \<^verbatim>\<open>iowrap.CallbackReadCloser(r, fn)\<close> wraps a reader: its \<^verbatim>\<open>Read\<close> calls
  \<^verbatim>\<open>Read\<close> of \<open>r\<close> and then \<open>fn\<close> on the bytes read. A method call on the nil interface
  value panics. \<open>BytesReadCloser\<close> is a reader over a byte slice. The callbacks are the
  closure that \<^verbatim>\<open>read\<close> builds, which assigns \<^verbatim>\<open>LastResponseBody\<close> to its own parameter
  and so changes nothing, and the caller's \<^verbatim>\<open>IoCallback\<close>, of which the model records
  the bytes it is called with.
\<close>

datatype callback = AssignParameter | IoCallback

datatype ReadCloser =
    NilReadCloser
  | BytesReadCloser "8 word list"
  | CallbackifyReadCloser ReadCloser callback

definition CallbackReadCloser :: "ReadCloser \<Rightarrow> callback \<Rightarrow> ReadCloser" where
  "CallbackReadCloser r fn = CallbackifyReadCloser r fn"

text \<open>
  All that \<^verbatim>\<open>Read\<close> delivers up to the end of the stream, with the bytes that the
  caller's callback has seen. \<^verbatim>\<open>io.Copy\<close> reads through a buffer of 32 KiB; the model
  takes the stream in one piece.
\<close>

fun ReadAll :: "ReadCloser \<Rightarrow> (8 word list \<times> 8 word list) outcome" where
  "ReadAll NilReadCloser = Panic"
| "ReadAll (BytesReadCloser b) = Returns (b, [])"
| "ReadAll (CallbackifyReadCloser r fn) =
     (case ReadAll r of
        Panic \<Rightarrow> Panic
      | Returns (b, seen) \<Rightarrow> Returns (b, (if fn = IoCallback then seen @ b else seen)))"

text \<open>
  The result of \<^verbatim>\<open>read\<close>: the count and the error it returns, what the sink holds
  afterwards and what the caller's callback has seen.
\<close>

record read_result =
  n_copied :: int
  err_read :: "go_error option"
  sink :: "8 word list"
  seen_by_callback :: "8 word list"

definition io_Copy :: "8 word list \<Rightarrow> ReadCloser \<Rightarrow> read_result outcome" where
  "io_Copy w rc =
     (case ReadAll rc of
        Panic \<Rightarrow> Panic
      | Returns (b, seen) \<Rightarrow>
          Returns \<lparr>n_copied = int (length b), err_read = None, sink = w @ b,
                   seen_by_callback = seen\<rparr>)"

definition time_Second :: int where
  "time_Second = 1000000000"

definition read ::
  "'c Storage \<Rightarrow> string \<Rightarrow> 8 word list \<Rightarrow> pairStorageRead \<Rightarrow> 'c \<Rightarrow> read_result outcome \<times> 'c" where
  "read s path w opt c =
     (let rp = getAbsPath s path;
          reqUrl = GetPrivateURL (client s) rp (3600 * time_Second) c
      in case Download (client s) reqUrl c of
           (Some err, c1) \<Rightarrow>
             (Returns \<lparr>n_copied = 0, err_read = Some err, sink = w, seen_by_callback = []\<rparr>, c1)
         | (None, c1) \<Rightarrow>
             (let rc0 = NilReadCloser;
                  rc1 = CallbackReadCloser rc0 AssignParameter;
                  rc2 = (if HasIoCallback opt then CallbackReadCloser rc1 IoCallback else rc1)
              in (io_Copy w rc2, c1)))"

subsection \<open>stat\<close>

text \<open>
  \<^verbatim>\<open>time.Parse\<close> of the standard library is a parameter of \<^verbatim>\<open>stat\<close>: it is given the
  layout \<^verbatim>\<open>time.RFC1123\<close> and the header's value. The body of \<^verbatim>\<open>stat\<close> after the head
  request is written block by block: the content length, the modification time, and
  the three attributes that cannot fail.
\<close>

definition stat_ContentLength :: "Header \<Rightarrow> Object \<Rightarrow> go_error + Object" where
  "stat_ContentLength output o1 =
     (if output ''Content-Length'' \<noteq> []
      then (case ParseInt (output ''Content-Length'') of
              Inl err \<Rightarrow> Inl err
            | Inr len \<Rightarrow> Inr (o1\<lparr>contentLength := Some len\<rparr>))
      else Inr o1)"

definition stat_LastModified ::
  "(string \<Rightarrow> string \<Rightarrow> go_error + Time) \<Rightarrow> Header \<Rightarrow> Object \<Rightarrow> go_error + Object" where
  "stat_LastModified time_Parse output o1 =
     (if output ''Last-Modified'' \<noteq> []
      then (case time_Parse RFC1123 (output ''Last-Modified'') of
              Inl err \<Rightarrow> Inl err
            | Inr t \<Rightarrow> Inr (o1\<lparr>lastModified := Some t\<rparr>))
      else Inr o1)"

definition stat_metadata :: "Header \<Rightarrow> Object \<Rightarrow> Object" where
  "stat_metadata output o1 =
     (let o2 = (if output ''Content-Type'' \<noteq> []
                then o1\<lparr>contentType := Some (output ''Content-Type'')\<rparr> else o1);
          o3 = (if output ''ETag'' \<noteq> [] then o2\<lparr>etag := Some (output ''ETag'')\<rparr> else o2);
          sm = (if output ''X-Ufile-Storage-Class'' \<noteq> []
                then \<lparr>sm_StorageClass = output ''X-Ufile-Storage-Class''\<rparr>
                else \<lparr>sm_StorageClass = []\<rparr>)
      in o3\<lparr>systemMetadata := Some sm\<rparr>)"

definition stat ::
  "(string \<Rightarrow> string \<Rightarrow> go_error + Time) \<Rightarrow> 'c Storage \<Rightarrow> string \<Rightarrow> pairStorageStat \<Rightarrow> 'c
     \<Rightarrow> (go_error + Object) \<times> 'c" where
  "stat time_Parse s path opt c =
     (let rp = getAbsPath s path;
          dir = (HasObjectMode opt \<and> ObjectMode_IsDir (ObjectMode opt))
      in if dir \<and> \<not> VirtualDir (features s)
         then (Inl (PairUnsupportedError (WithObjectMode (ObjectMode opt))), c)
         else (let rp1 = (if dir then rp @ ''/'' else rp)
               in case HeadFile (client s) rp1 c of
                    (Some err, c1) \<Rightarrow> (Inl err, c1)
                  | (None, c1) \<Rightarrow>
                      (let o1 = newObject s True;
                           o2 = o1\<lparr>ID := rp1\<rparr>;
                           o3 = o2\<lparr>Path := path\<rparr>;
                           o4 = (if dir then o3\<lparr>Mode := Mode o3 OR ModeDir\<rparr>
                                 else o3\<lparr>Mode := Mode o3 OR ModeRead\<rparr>);
                           output = LastResponseHeader (client s) c1
                       in case stat_ContentLength output o4 of
                            Inl err \<Rightarrow> (Inl err, c1)
                          | Inr o5 \<Rightarrow>
                              (case stat_LastModified time_Parse output o5 of
                                 Inl err \<Rightarrow> (Inl err, c1)
                               | Inr o6 \<Rightarrow> (Inr (stat_metadata output o6), c1)))))"

section \<open>A backend stub\<close>

text \<open>
  A test double for the SDK client, used to run the operations on concrete inputs. It
  keeps the keys it stores, the answers it will give to the next list calls, the
  header and the body of its responses, and a log of the calls it has received.
  Deleting or heading a key that is not stored fails with a \<^verbatim>\<open>uerr.ServerError\<close> of
  code \<^verbatim>\<open>NoSuchKey\<close>; a list call takes the next scripted answer.
\<close>

datatype call =
    DeleteFile_call string
  | HeadFile_call string
  | ListObjects_call string string string int
  | Download_call string

record stub =
  stored :: "string list"
  script :: "ListObjectResponse list"
  header :: "(string \<times> string) list"
  body :: "8 word list"
  calls :: "call list"

definition stub_DeleteFile :: "string \<Rightarrow> stub \<Rightarrow> go_error option \<times> stub" where
  "stub_DeleteFile k b =
     (let b1 = b\<lparr>calls := calls b @ [DeleteFile_call k]\<rparr>
      in if k \<in> set (stored b) then (None, b1\<lparr>stored := removeAll k (stored b)\<rparr>)
         else (Some (ServerErrorVal NoSuchKey ''no such key''), b1))"

text \<open>The same, with the error that the backend gives for a key it does not store.\<close>

definition stub_DeleteFile_failing :: "go_error \<Rightarrow> string \<Rightarrow> stub \<Rightarrow> go_error option \<times> stub" where
  "stub_DeleteFile_failing err k b =
     (let b1 = b\<lparr>calls := calls b @ [DeleteFile_call k]\<rparr>
      in if k \<in> set (stored b) then (None, b1\<lparr>stored := removeAll k (stored b)\<rparr>)
         else (Some err, b1))"

definition stub_HeadFile :: "string \<Rightarrow> stub \<Rightarrow> go_error option \<times> stub" where
  "stub_HeadFile k b =
     (let b1 = b\<lparr>calls := calls b @ [HeadFile_call k]\<rparr>
      in if k \<in> set (stored b) then (None, b1)
         else (Some (ServerErrorVal NoSuchKey ''no such key''), b1))"

definition stub_ListObjects ::
  "string \<Rightarrow> string \<Rightarrow> string \<Rightarrow> int \<Rightarrow> stub \<Rightarrow> (go_error + ListObjectResponse) \<times> stub" where
  "stub_ListObjects p m d k b =
     (let b1 = b\<lparr>calls := calls b @ [ListObjects_call p m d k]\<rparr>
      in case script b of
           [] \<Rightarrow> (Inl (PlainError ''no answer scripted''), b1)
         | r # rs \<Rightarrow> (Inr r, b1\<lparr>script := rs\<rparr>))"

definition stub_Download :: "string \<Rightarrow> stub \<Rightarrow> go_error option \<times> stub" where
  "stub_Download url b = (None, b\<lparr>calls := calls b @ [Download_call url]\<rparr>)"

definition stub_Header :: "stub \<Rightarrow> Header" where
  "stub_Header b k = (case map_of (header b) k of None \<Rightarrow> [] | Some v \<Rightarrow> v)"

definition stub_client :: "stub UFileRequest" where
  "stub_client =
     \<lparr>DeleteFile = stub_DeleteFile, HeadFile = stub_HeadFile, ListObjects = stub_ListObjects,
      GetPrivateURL = (\<lambda>k d b. ''https://stub/'' @ k), Download = stub_Download,
      LastResponseHeader = stub_Header, LastResponseBody = body\<rparr>"

definition stub_client_failing :: "go_error \<Rightarrow> stub UFileRequest" where
  "stub_client_failing err = stub_client\<lparr>DeleteFile := stub_DeleteFile_failing err\<rparr>"

definition stub_storage :: "string \<Rightarrow> bool \<Rightarrow> stub Storage" where
  "stub_storage wd vd =
     \<lparr>client = stub_client, bucket = ''bucket'', workDir = wd, features = \<lparr>VirtualDir = vd\<rparr>\<rparr>"

definition stub_backend ::
  "string list \<Rightarrow> ListObjectResponse list \<Rightarrow> (string \<times> string) list \<Rightarrow> stub" where
  "stub_backend ks rs h = \<lparr>stored = ks, script = rs, header = h, body = [104, 105], calls = []\<rparr>"

text \<open>
  A parser for the stub: it reads an HTTP date of the fixed form
  \<^verbatim>\<open>Mon, 02 Jan 2006 15:04:05 GMT\<close> and fails on anything else.
\<close>

definition num2 :: "char \<Rightarrow> char \<Rightarrow> int option" where
  "num2 a b =
     (if isDigit a \<and> isDigit b then Some (int (of_char a - 48) * 10 + int (of_char b - 48))
      else None)"

definition month_number :: "string \<Rightarrow> int option" where
  "month_number m =
     map_of [(''Jan'', 1), (''Feb'', 2), (''Mar'', 3), (''Apr'', 4), (''May'', 5), (''Jun'', 6),
             (''Jul'', 7), (''Aug'', 8), (''Sep'', 9), (''Oct'', 10), (''Nov'', 11), (''Dec'', 12)] m"

definition days_from_civil :: "int \<Rightarrow> int \<Rightarrow> int \<Rightarrow> int" where
  "days_from_civil y m d =
     (let y1 = (if m \<le> 2 then y - 1 else y);
          era = y1 div 400;
          yoe = y1 - era * 400;
          doy = (153 * (if m > 2 then m - 3 else m + 9) + 2) div 5 + d - 1;
          doe = yoe * 365 + yoe div 4 - yoe div 100 + doy
      in era * 146097 + doe - 719468)"

definition stub_time_Parse :: "string \<Rightarrow> string \<Rightarrow> go_error + Time" where
  "stub_time_Parse layout v =
     (if layout \<noteq> RFC1123 \<or> length v \<noteq> 29 then Inl (PlainError ''parsing time'')
      else if take 3 v \<notin> set [''Mon'', ''Tue'', ''Wed'', ''Thu'', ''Fri'', ''Sat'', ''Sun'']
              \<or> take 2 (drop 3 v) \<noteq> '', '' \<or> v ! 7 \<noteq> CHR '' '' \<or> v ! 11 \<noteq> CHR '' ''
              \<or> v ! 16 \<noteq> CHR '' '' \<or> v ! 19 \<noteq> CHR '':'' \<or> v ! 22 \<noteq> CHR '':''
              \<or> drop 25 v \<noteq> '' GMT''
           then Inl (PlainError ''parsing time'')
      else (case (num2 (v ! 5) (v ! 6), month_number (take 3 (drop 8 v)),
                  num2 (v ! 12) (v ! 13), num2 (v ! 14) (v ! 15),
                  num2 (v ! 17) (v ! 18), num2 (v ! 20) (v ! 21), num2 (v ! 23) (v ! 24)) of
              (Some d, Some m, Some yh, Some yl, Some hh, Some mi, Some ss) \<Rightarrow>
                (if 1 \<le> d \<and> d \<le> 31 \<and> hh < 24 \<and> mi < 60 \<and> ss < 60
                 then Inr (UnixTime (days_from_civil (yh * 100 + yl) m d * 86400
                                      + hh * 3600 + mi * 60 + ss) 0)
                 else Inl (PlainError ''parsing time''))
            | _ \<Rightarrow> Inl (PlainError ''parsing time'')))"

text \<open>The key that \<^verbatim>\<open>stat\<close> and \<^verbatim>\<open>delete\<close> send to the backend.\<close>

definition backendKey :: "'c Storage \<Rightarrow> string \<Rightarrow> pairStorageStat \<Rightarrow> string" where
  "backendKey s path opt =
     (if HasObjectMode opt \<and> ObjectMode_IsDir (ObjectMode opt)
      then getAbsPath s path @ ''/'' else getAbsPath s path)"

text \<open>The list call that a cursor issues with a given marker.\<close>

definition list_call :: "objectPageStatus \<Rightarrow> string \<Rightarrow> call" where
  "list_call st m = ListObjects_call (prefix st) m (delimiter st) (maxKeys st)"

section \<open>Example data\<close>

text \<open>
  A storage with the working directory \<^verbatim>\<open>/data/\<close> and virtual directories, a directory
  cursor, and a scripted backend: three truncated pages, the second of them empty, and
  a last page that is not truncated.
\<close>

definition ex_storage :: "stub Storage" where
  "ex_storage = stub_storage ''/data/'' True"

definition ex_cursor :: objectPageStatus where
  "ex_cursor = \<lparr>prefix = ''data/'', maxKeys = 200, delimiter = ''/'', marker = []\<rparr>"

definition ex_file :: "string \<Rightarrow> ObjectInfo" where
  "ex_file k = \<lparr>Key = k, Size = ''42'', LastModified = 1000000000000, Etag = ''e1'',
               StorageClass = ''STANDARD''\<rparr>"

definition ex_page_a :: ListObjectResponse where
  "ex_page_a = \<lparr>IsTruncated = True, NextMarker = ''m1'', Contents = [ex_file ''data/a.txt''],
                 CommonPrefixes = [\<lparr>Prefix = ''data/sub/''\<rparr>]\<rparr>"

definition ex_page_b :: ListObjectResponse where
  "ex_page_b = \<lparr>IsTruncated = True, NextMarker = ''m2'', Contents = [], CommonPrefixes = []\<rparr>"

definition ex_page_c :: ListObjectResponse where
  "ex_page_c = \<lparr>IsTruncated = True, NextMarker = ''m3'', Contents = [ex_file ''data/b.txt''],
                 CommonPrefixes = []\<rparr>"

definition ex_page_d :: ListObjectResponse where
  "ex_page_d = \<lparr>IsTruncated = False, NextMarker = ''m4'', Contents = [], CommonPrefixes = []\<rparr>"

definition ex_backend :: stub where
  "ex_backend = stub_backend [''data/a.txt'', ''data/dir/''] [ex_page_a, ex_page_b, ex_page_c, ex_page_d]
                  [(''Content-Length'', ''42''), (''Last-Modified'', ''Mon, 02 Jan 2006 15:04:05 GMT'')]"

text \<open>
  Storages on a backend whose delete of a missing key fails with a \<^verbatim>\<open>*uerr.ServerError\<close> of
  code \<^verbatim>\<open>NoSuchKey\<close>, the type that \<^verbatim>\<open>formatError\<close> asserts, and with the plain error that
  the SDK makes of a response that is not 2xx.
\<close>

definition ex_storage_ptr :: "stub Storage" where
  "ex_storage_ptr =
     ex_storage\<lparr>client := stub_client_failing (ServerErrorPtr NoSuchKey ''no such key'')\<rparr>"

definition ex_storage_plain :: "stub Storage" where
  "ex_storage_plain =
     ex_storage\<lparr>client := stub_client_failing (PlainError ''Remote response code is 404'')\<rparr>"

text \<open>An entry whose size does not parse, and the options of a file and of a directory.\<close>

definition ex_bad_file :: ObjectInfo where
  "ex_bad_file = \<lparr>Key = ''data/c.txt'', Size = ''4x'', LastModified = 0, Etag = [], StorageClass = []\<rparr>"

definition ex_file_opt :: pairObjectMode where
  "ex_file_opt = \<lparr>HasObjectMode = False, ObjectMode = 0\<rparr>"

definition ex_dir_opt :: pairObjectMode where
  "ex_dir_opt = \<lparr>HasObjectMode = True, ObjectMode = ModeDir\<rparr>"

section \<open>Unfolding for concrete inputs\<close>

lemmas stub_defs = stub_storage_def stub_backend_def stub_client_def stub_DeleteFile_def
  stub_HeadFile_def stub_ListObjects_def stub_Download_def stub_Header_def

lemmas path_defs = getAbsPath_def getRelPath_def strings_TrimPrefix_def strings_HasPrefix_def

lemmas object_defs = formatFileObject_def dirObject_def newObject_def NewObject_def
  ParseInt_def ParseUint_def isDigit_def time_Unix_def ModeDir_def ModeRead_def
  ObjectMode_IsDir_def ObjectMode_IsRead_def

lemmas page_defs = nextPage_def nextObjectPageByDir_def nextObjectPageByPrefix_def

lemmas ex_defs = ex_storage_def ex_cursor_def ex_file_def ex_page_a_def ex_page_b_def
  ex_page_c_def ex_page_d_def ex_backend_def

lemmas stat_defs = stat_def stat_ContentLength_def stat_LastModified_def stat_metadata_def
  stub_time_Parse_def RFC1123_def num2_def month_number_def days_from_civil_def


section \<open>Facts about the page loops\<close>

lemma appendDirs_eq: "appendDirs s vs data = data @ map (dirObject s) vs"
  by (induction vs arbitrary: data) simp_all

lemma formatFileObject_Inr_iff:
  "(\<exists>o1. formatFileObject s v = Inr o1) \<longleftrightarrow> (\<exists>n. ParseInt (Size v) = Inr n)"
  by (cases "ParseInt (Size v)") (simp_all add: formatFileObject_def Let_def)

lemma formatFileObject_Inl_iff:
  "formatFileObject s v = Inl e \<longleftrightarrow> ParseInt (Size v) = Inl e"
  by (cases "ParseInt (Size v)") (simp_all add: formatFileObject_def Let_def)

lemma appendFiles_ok:
  "\<forall>v \<in> set vs. \<exists>n. ParseInt (Size v) = Inr n \<Longrightarrow>
   \<exists>files. appendFiles s vs data = (None, data @ files)
     \<and> list_all2 (\<lambda>v o1. formatFileObject s v = Inr o1) vs files"
proof (induction vs arbitrary: data)
  case Nil
  then show ?case by simp
next
  case (Cons v vs)
  from Cons.prems obtain o1 where o1: "formatFileObject s v = Inr o1"
    using formatFileObject_Inr_iff [of s v] by auto
  from Cons.prems have "\<forall>v \<in> set vs. \<exists>n. ParseInt (Size v) = Inr n" by simp
  from Cons.IH [OF this, of "data @ [o1]"] obtain files where
    f: "appendFiles s vs (data @ [o1]) = (None, (data @ [o1]) @ files)"
       "list_all2 (\<lambda>v o1. formatFileObject s v = Inr o1) vs files" by blast
  show ?case
    by (rule exI [of _ "o1 # files"]) (simp add: o1 f)
qed

text \<open>
  One page fetch on a fresh or filled page, when the backend answers and every size
  parses: the page gets the directory objects (in directory mode) and the file
  objects, and the fetch ends the listing exactly on an empty marker or a response that
  is not truncated.
\<close>

lemma nextPage_ok:
  assumes lo: "ListObjects (client s) (prefix st) (marker st) (delimiter st) (maxKeys st) c
                 = (Inr out, c1)"
    and ok: "\<forall>v \<in> set (Contents out). \<exists>n. ParseInt (Size v) = Inr n"
  shows "\<exists>files. list_all2 (\<lambda>v o1. formatFileObject s v = Inr o1) (Contents out) files \<and>
     nextPage f s \<lparr>Status = st, Data = d\<rparr> c =
       (let objs = d @ (case f of ByDir \<Rightarrow> map (dirObject s) (CommonPrefixes out)
                                | ByPrefix \<Rightarrow> []) @ files
        in if NextMarker out = [] \<or> \<not> IsTruncated out
           then (Some IterateDone, \<lparr>Status = st, Data = objs\<rparr>, c1)
           else (None, \<lparr>Status = st\<lparr>marker := NextMarker out\<rparr>, Data = objs\<rparr>, c1))"
proof (cases f)
  case ByDir
  from appendFiles_ok [OF ok, of s "d @ map (dirObject s) (CommonPrefixes out)"]
  obtain files where f: "appendFiles s (Contents out) (d @ map (dirObject s) (CommonPrefixes out))
      = (None, (d @ map (dirObject s) (CommonPrefixes out)) @ files)"
    "list_all2 (\<lambda>v o1. formatFileObject s v = Inr o1) (Contents out) files" by blast
  show ?thesis
    by (rule exI [of _ files])
       (simp add: ByDir nextPage_def nextObjectPageByDir_def lo appendDirs_eq f Let_def)
next
  case ByPrefix
  from appendFiles_ok [OF ok, of s d]
  obtain files where f: "appendFiles s (Contents out) d = (None, d @ files)"
    "list_all2 (\<lambda>v o1. formatFileObject s v = Inr o1) (Contents out) files" by blast
  show ?thesis
    by (rule exI [of _ files])
       (simp add: ByPrefix nextPage_def nextObjectPageByPrefix_def lo f Let_def)
qed

lemma nextPage_cursor:
  assumes "nextPage f s page c = (r, page', c')"
  shows "prefix (Status page') = prefix (Status page)
       \<and> maxKeys (Status page') = maxKeys (Status page)
       \<and> delimiter (Status page') = delimiter (Status page)
       \<and> (r \<noteq> None \<longrightarrow> marker (Status page') = marker (Status page))
       \<and> (r = None \<longrightarrow>
            (\<exists>out. fst (ListObjects (client s) (prefix (Status page)) (marker (Status page))
                         (delimiter (Status page)) (maxKeys (Status page)) c) = Inr out
                  \<and> NextMarker out \<noteq> [] \<and> IsTruncated out
                  \<and> marker (Status page') = NextMarker out))"
  using assms
  by (cases f)
     (auto simp: nextPage_def nextObjectPageByDir_def nextObjectPageByPrefix_def Let_def
           split: prod.splits sum.splits option.splits if_splits)

text \<open>The same fetch on the stub, and four fetches over a script of four pages.\<close>

lemma nextPage_stub:
  assumes cl: "client s = stub_client" and sc: "script b = p # ps"
    and ok: "\<forall>v \<in> set (Contents p). \<exists>n. ParseInt (Size v) = Inr n"
  shows "\<exists>objs. nextPage f s \<lparr>Status = st, Data = []\<rparr> b =
      (if NextMarker p = [] \<or> \<not> IsTruncated p
       then (Some IterateDone, \<lparr>Status = st, Data = objs\<rparr>,
             b\<lparr>calls := calls b @ [list_call st (marker st)], script := ps\<rparr>)
       else (None, \<lparr>Status = st\<lparr>marker := NextMarker p\<rparr>, Data = objs\<rparr>,
             b\<lparr>calls := calls b @ [list_call st (marker st)], script := ps\<rparr>))"
proof -
  have lo: "ListObjects (client s) (prefix st) (marker st) (delimiter st) (maxKeys st) b
              = (Inr p, b\<lparr>calls := calls b @ [list_call st (marker st)], script := ps\<rparr>)"
    by (simp add: cl sc stub_client_def stub_ListObjects_def list_call_def Let_def)
  from nextPage_ok [OF lo ok, where d = "[]" and f = f] show ?thesis
    by (auto simp: Let_def)
qed

lemma list_call_marker [simp]: "list_call (st\<lparr>marker := m\<rparr>) = list_call st"
  by (simp add: list_call_def fun_eq_iff)

lemma four_fetches:
  assumes cl: "client s = stub_client" and sc: "script b = pa # pb # pc # pd # rest"
    and tr: "\<forall>p \<in> set [pa, pb, pc]. IsTruncated p \<and> NextMarker p \<noteq> []"
    and la: "\<not> IsTruncated pd"
    and ok: "\<forall>p \<in> set [pa, pb, pc, pd]. \<forall>v \<in> set (Contents p). \<exists>n. ParseInt (Size v) = Inr n"
  shows "\<exists>da db dc dd ba bb bc bd.
           nextPage f s \<lparr>Status = st, Data = []\<rparr> b
             = (None, \<lparr>Status = st\<lparr>marker := NextMarker pa\<rparr>, Data = da\<rparr>, ba)
         \<and> nextPage f s \<lparr>Status = st\<lparr>marker := NextMarker pa\<rparr>, Data = []\<rparr> ba
             = (None, \<lparr>Status = st\<lparr>marker := NextMarker pb\<rparr>, Data = db\<rparr>, bb)
         \<and> nextPage f s \<lparr>Status = st\<lparr>marker := NextMarker pb\<rparr>, Data = []\<rparr> bb
             = (None, \<lparr>Status = st\<lparr>marker := NextMarker pc\<rparr>, Data = dc\<rparr>, bc)
         \<and> nextPage f s \<lparr>Status = st\<lparr>marker := NextMarker pc\<rparr>, Data = []\<rparr> bc
             = (Some IterateDone, \<lparr>Status = st\<lparr>marker := NextMarker pc\<rparr>, Data = dd\<rparr>, bd)
         \<and> script bd = rest
         \<and> calls bd = calls b @ [list_call st (marker st), list_call st (NextMarker pa),
                                  list_call st (NextMarker pb), list_call st (NextMarker pc)]"
proof -
  let ?sa = "st\<lparr>marker := NextMarker pa\<rparr>"
  let ?sb = "st\<lparr>marker := NextMarker pb\<rparr>"
  let ?sc = "st\<lparr>marker := NextMarker pc\<rparr>"
  let ?ba = "b\<lparr>calls := calls b @ [list_call st (marker st)], script := pb # pc # pd # rest\<rparr>"
  let ?bb = "?ba\<lparr>calls := calls ?ba @ [list_call ?sa (marker ?sa)], script := pc # pd # rest\<rparr>"
  let ?bc = "?bb\<lparr>calls := calls ?bb @ [list_call ?sb (marker ?sb)], script := pd # rest\<rparr>"
  let ?bd = "?bc\<lparr>calls := calls ?bc @ [list_call ?sc (marker ?sc)], script := rest\<rparr>"
  have oa: "\<forall>v \<in> set (Contents pa). \<exists>n. ParseInt (Size v) = Inr n"
    and ob: "\<forall>v \<in> set (Contents pb). \<exists>n. ParseInt (Size v) = Inr n"
    and oc: "\<forall>v \<in> set (Contents pc). \<exists>n. ParseInt (Size v) = Inr n"
    and od: "\<forall>v \<in> set (Contents pd). \<exists>n. ParseInt (Size v) = Inr n"
    using ok by simp_all
  have ta: "IsTruncated pa" "NextMarker pa \<noteq> []" and tb: "IsTruncated pb" "NextMarker pb \<noteq> []"
    and tc: "IsTruncated pc" "NextMarker pc \<noteq> []"
    using tr by simp_all
  from nextPage_stub [OF cl sc oa, of f st] ta obtain da where
    a: "nextPage f s \<lparr>Status = st, Data = []\<rparr> b = (None, \<lparr>Status = ?sa, Data = da\<rparr>, ?ba)"
    by auto
  have "script ?ba = pb # pc # pd # rest" by simp
  from nextPage_stub [OF cl this ob, of f ?sa] tb obtain db where
    b: "nextPage f s \<lparr>Status = ?sa, Data = []\<rparr> ?ba = (None, \<lparr>Status = ?sb, Data = db\<rparr>, ?bb)"
    by auto
  have "script ?bb = pc # pd # rest" by simp
  from nextPage_stub [OF cl this oc, of f ?sb] tc obtain dc where
    c: "nextPage f s \<lparr>Status = ?sb, Data = []\<rparr> ?bb = (None, \<lparr>Status = ?sc, Data = dc\<rparr>, ?bc)"
    by auto
  have "script ?bc = pd # rest" by simp
  from nextPage_stub [OF cl this od, of f ?sc] la obtain dd where
    d: "nextPage f s \<lparr>Status = ?sc, Data = []\<rparr> ?bc = (Some IterateDone, \<lparr>Status = ?sc, Data = dd\<rparr>, ?bd)"
    by auto
  have e: "script ?bd = rest"
    "calls ?bd = calls b @ [list_call st (marker st), list_call st (NextMarker pa),
                                  list_call st (NextMarker pb), list_call st (NextMarker pc)]"
    by simp_all
  from a b c d e show ?thesis by blast
qed

text \<open>A size that does not parse fails the page fetch.\<close>

lemma ParseInt_error: "ParseInt x = Inl e \<Longrightarrow> \<exists>k. e = NumError k x"
  by (auto simp: ParseInt_def Let_def split: if_splits sum.splits num_error.splits)

lemma appendFiles_fail_NumError:
  "v \<in> set vs \<Longrightarrow> ParseInt (Size v) = Inl e \<Longrightarrow>
   \<exists>k num d. appendFiles s vs data = (Some (NumError k num), d)"
proof (induction vs arbitrary: data)
  case Nil
  then show ?case by simp
next
  case (Cons a vs)
  show ?case
  proof (cases "formatFileObject s a")
    case (Inl e2)
    then have "ParseInt (Size a) = Inl e2" by (simp add: formatFileObject_Inl_iff)
    from ParseInt_error [OF this] Inl show ?thesis by auto
  next
    case (Inr o1)
    have "v \<noteq> a"
      using Cons.prems Inr formatFileObject_Inl_iff [of s a] by (metis sum.distinct(1))
    with Cons.prems have "v \<in> set vs" by simp
    from Cons.IH [OF this Cons.prems(2)] show ?thesis using Inr by simp
  qed
qed

lemma nextPage_parse_failure:
  assumes lo: "ListObjects (client s) (prefix st) (marker st) (delimiter st) (maxKeys st) c
                 = (Inr out, c')"
    and v: "v \<in> set (Contents out)" and e: "ParseInt (Size v) = Inl e"
  shows "\<exists>k num. fst (nextPage f s \<lparr>Status = st, Data = d\<rparr> c) = Some (NumError k num)"
proof (cases f)
  case ByDir
  from appendFiles_fail_NumError [OF v e, of s "appendDirs s (CommonPrefixes out) d"]
  show ?thesis
    by (auto simp: ByDir nextPage_def nextObjectPageByDir_def lo Let_def)
next
  case ByPrefix
  from appendFiles_fail_NumError [OF v e, of s d]
  show ?thesis
    by (auto simp: ByPrefix nextPage_def nextObjectPageByPrefix_def lo Let_def)
qed

lemma time_Unix_whole: "time_Unix x 0 = UnixTime x 0"
  by (simp add: time_Unix_def)

lemma formatFileObject_parsed:
  "ParseInt (Size v) = Inr n \<Longrightarrow>
   \<exists>o1. formatFileObject s v = Inr o1 \<and> contentLength o1 = Some n
        \<and> lastModified o1 = Some (UnixTime (LastModified v sdiv 1000) 0)"
  by (simp add: formatFileObject_def Let_def time_Unix_whole)

lemma ParseInt_42: "ParseInt ''42'' = Inr 42"
  by (simp add: ParseInt_def ParseUint_def isDigit_def)

section \<open>Facts about the single-request operations\<close>

lemma create_dir:
  assumes "HasObjectMode opt" "ObjectMode_IsDir (ObjectMode opt)" "VirtualDir (features s)"
  shows "\<exists>o1. create s path opt = Some o1 \<and> ID o1 = getAbsPath s path @ ''/''
           \<and> ObjectMode_IsDir (Mode o1) \<and> Path o1 = path \<and> done' o1"
  using assms
  by (simp add: create_def Let_def newObject_def NewObject_def ObjectMode_IsDir_def ModeDir_def)

lemma delete_dir:
  assumes "HasObjectMode opt" "ObjectMode_IsDir (ObjectMode opt)" "VirtualDir (features s)"
  shows "delete s path opt c =
     (case DeleteFile (client s) (getAbsPath s path @ ''/'') c of
        (None, c') \<Rightarrow> (None, c')
      | (Some err, c') \<Rightarrow>
          (case err of
             ServerErrorVal code msg \<Rightarrow> (if code = NoSuchKey then (None, c') else (Some err, c'))
           | _ \<Rightarrow> (Some err, c')))"
  using assms by (simp add: delete_def Let_def)

lemma stat_ContentLength_keeps:
  "stat_ContentLength h o1 = Inr o2 \<Longrightarrow>
     ID o2 = ID o1 \<and> Path o2 = Path o1 \<and> Mode o2 = Mode o1 \<and> done' o2 = done' o1
     \<and> lastModified o2 = lastModified o1"
  by (auto simp: stat_ContentLength_def split: if_splits sum.splits)

lemma stat_LastModified_keeps:
  "stat_LastModified tp h o1 = Inr o2 \<Longrightarrow>
     ID o2 = ID o1 \<and> Path o2 = Path o1 \<and> Mode o2 = Mode o1 \<and> done' o2 = done' o1
     \<and> contentLength o2 = contentLength o1"
  by (auto simp: stat_LastModified_def split: if_splits sum.splits)

lemma stat_metadata_keeps:
  "ID (stat_metadata h o1) = ID o1 \<and> Path (stat_metadata h o1) = Path o1
   \<and> Mode (stat_metadata h o1) = Mode o1 \<and> done' (stat_metadata h o1) = done' o1
   \<and> contentLength (stat_metadata h o1) = contentLength o1
   \<and> lastModified (stat_metadata h o1) = lastModified o1"
  by (simp add: stat_metadata_def Let_def)

lemma stat_HeadFile_fail:
  assumes "\<not> (HasObjectMode opt \<and> ObjectMode_IsDir (ObjectMode opt) \<and> \<not> VirtualDir (features s))"
    and "HeadFile (client s) (backendKey s path opt) c = (Some err, c')"
  shows "stat tp s path opt c = (Inl err, c')"
  using assms by (auto simp: stat_def backendKey_def Let_def)

lemma stat_HeadFile_ok:
  assumes g: "\<not> (HasObjectMode opt \<and> ObjectMode_IsDir (ObjectMode opt) \<and> \<not> VirtualDir (features s))"
    and h: "HeadFile (client s) (backendKey s path opt) c = (None, c')"
  shows "stat tp s path opt c =
     (case stat_ContentLength (LastResponseHeader (client s) c')
             ((newObject s True)\<lparr>ID := backendKey s path opt, Path := path,
                Mode := (if HasObjectMode opt \<and> ObjectMode_IsDir (ObjectMode opt)
                         then ModeDir else ModeRead)\<rparr>) of
        Inl err \<Rightarrow> (Inl err, c')
      | Inr o5 \<Rightarrow>
          (case stat_LastModified tp (LastResponseHeader (client s) c') o5 of
             Inl err \<Rightarrow> (Inl err, c')
           | Inr o6 \<Rightarrow> (Inr (stat_metadata (LastResponseHeader (client s) c') o6), c')))"
  using g h by (auto simp: stat_def backendKey_def Let_def newObject_def NewObject_def)

lemma stat_object:
  assumes g: "\<not> (HasObjectMode opt \<and> ObjectMode_IsDir (ObjectMode opt) \<and> \<not> VirtualDir (features s))"
    and r: "stat tp s path opt c = (Inr o1, c')"
  shows "fst (HeadFile (client s) (backendKey s path opt) c) = None
       \<and> ID o1 = backendKey s path opt \<and> Path o1 = path \<and> done' o1
       \<and> Mode o1 = (if HasObjectMode opt \<and> ObjectMode_IsDir (ObjectMode opt)
                     then ModeDir else ModeRead)"
proof -
  obtain e c2 where h: "HeadFile (client s) (backendKey s path opt) c = (e, c2)"
    by (cases "HeadFile (client s) (backendKey s path opt) c")
  show ?thesis
  proof (cases e)
    case None
    let ?h = "LastResponseHeader (client s) c2"
    let ?o = "(newObject s True)\<lparr>ID := backendKey s path opt, Path := path,
                Mode := (if HasObjectMode opt \<and> ObjectMode_IsDir (ObjectMode opt)
                         then ModeDir else ModeRead)\<rparr>"
    note u = stat_HeadFile_ok [OF g h [unfolded None], of tp]
    from r u obtain o5 o6 where
      s: "stat_ContentLength ?h ?o = Inr o5" "stat_LastModified tp ?h o5 = Inr o6"
         "o1 = stat_metadata ?h o6"
      by (auto split: sum.splits)
    from stat_ContentLength_keeps [OF s(1)] stat_LastModified_keeps [OF s(2)]
      stat_metadata_keeps [of ?h o6] s(3) h None
    show ?thesis by (simp add: newObject_def NewObject_def)
  next
    case (Some err)
    from stat_HeadFile_fail [OF g h [unfolded Some], of tp] r show ?thesis by simp
  qed
qed

lemma read_panics:
  assumes "fst (Download (client s) (GetPrivateURL (client s) (getAbsPath s path) (3600 * time_Second) c) c)
             = None"
  shows "fst (read s path w opt c) = Panic"
  using assms
  by (auto simp: read_def io_Copy_def CallbackReadCloser_def Let_def split: prod.splits)

section \<open>The path resolver\<close>

text \<open>
  C7. Stripping the working-directory prefix from an absolute key that \<open>getAbsPath\<close>
  built gives the relative path back, for every path and every working directory; and
  \<open>getRelPath\<close> returns a key that does not start with the prefix as it is. Both
  functions are total: there is no input on which they fail.
\<close>

theorem path_roundtrip:
  "getRelPath s (getAbsPath s p) = p \<and>
   (\<not> strings_HasPrefix key (strings_TrimPrefix (workDir s) ''/'') \<longrightarrow> getRelPath s key = key)"
  by (simp add: getRelPath_def getAbsPath_def strings_TrimPrefix_def strings_HasPrefix_def Let_def)

theorem path_roundtrip_witness:
  "getRelPath (stub_storage ''/data/'' True) (getAbsPath (stub_storage ''/data/'' True) ''a.txt'')
     = ''a.txt''
   \<and> \<not> strings_HasPrefix ''other/x''
         (strings_TrimPrefix (workDir (stub_storage ''/data/'' True)) ''/'')
   \<and> getRelPath (stub_storage ''/data/'' True) ''other/x'' = ''other/x''"
  using path_roundtrip [of "stub_storage ''/data/'' True" "''a.txt''" "''other/x''"]
  by (simp add: stub_storage_def strings_TrimPrefix_def strings_HasPrefix_def)

section \<open>The error normalizer\<close>

text \<open>
  The one input on which \<open>formatError\<close> does not return: the nil pointer, whose \<^verbatim>\<open>Code\<close>
  it calls. \<open>delete\<close> does not assert the pointer type and returns such an error as it is.
\<close>

lemma formatError_nil_pointer: "formatError e = Panic \<longleftrightarrow> e = ServerErrorNil"
  by (cases e) simp_all

text \<open>
  C3, as the claim has it, asks that normalizing twice never wraps twice. The result of
  \<open>formatError\<close> on a backend error is the wrapper of \<^verbatim>\<open>fmt.Errorf\<close>, which is no
  \<^verbatim>\<open>services.InternalError\<close>: a second call wraps it again, and the kind becomes
  unexpected.
\<close>

theorem formatError_twice_counterexample:
  "formatError (ServerErrorPtr AccessDenied ''denied'')
     = Returns (WrapError ''permission denied, denied'' ErrPermissionDenied)
   \<and> formatError (WrapError ''permission denied, denied'' ErrPermissionDenied)
     = Returns (WrapError ''unexpected, permission denied, denied'' ErrUnexpected)
   \<and> formatError (WrapError ''permission denied, denied'' ErrPermissionDenied)
     \<noteq> Returns (WrapError ''permission denied, denied'' ErrPermissionDenied)"
  by (simp add: Errorf_w_v_def ErrPermissionDenied_def ErrUnexpected_def)

text \<open>
  C3, amended. \<open>formatError\<close> maps a \<^verbatim>\<open>*uerr.ServerError\<close> (not nil) with the code
  \<^verbatim>\<open>AccessDenied\<close> to the kind permission denied, one with the code \<^verbatim>\<open>NoSuchKey\<close> to the
  kind object not exist, one with any other code to the kind unexpected, and an error
  that is neither a go-storage error nor a server error to the kind unexpected. An
  error that implements \<^verbatim>\<open>services.InternalError\<close> is returned as it is. The result for
  any other error is not of that kind, and a second call wraps it once more as
  unexpected.
\<close>

theorem formatError_mapping:
  "(\<exists>r. formatError (ServerErrorPtr AccessDenied m) = Returns r
         \<and> Unwrap r = Some ErrPermissionDenied)
   \<and> (\<exists>r. formatError (ServerErrorPtr NoSuchKey m) = Returns r
         \<and> Unwrap r = Some ErrObjectNotExist)
   \<and> (code \<noteq> AccessDenied \<and> code \<noteq> NoSuchKey \<longrightarrow>
        (\<exists>r. formatError (ServerErrorPtr code m) = Returns r \<and> Unwrap r = Some ErrUnexpected))
   \<and> (\<not> is_InternalError e \<and> e \<noteq> ServerErrorNil
        \<and> (\<forall>c t. e \<noteq> ServerErrorPtr c t \<and> e \<noteq> ServerErrorVal c t) \<longrightarrow>
        (\<exists>r. formatError e = Returns r \<and> Unwrap r = Some ErrUnexpected))
   \<and> (is_InternalError e \<longrightarrow> formatError e = Returns e)
   \<and> (\<not> is_InternalError e \<and> e \<noteq> ServerErrorNil \<longrightarrow>
        (\<exists>r. formatError e = Returns r \<and> \<not> is_InternalError r
              \<and> formatError r = Returns (Errorf_w_v ErrUnexpected r)))"
  by (cases e) (simp_all add: Errorf_w_v_def AccessDenied_def NoSuchKey_def)

theorem formatError_mapping_witness:
  "(500::int) \<noteq> AccessDenied \<and> 500 \<noteq> NoSuchKey
   \<and> formatError (ServerErrorPtr 500 ''busy'') = Returns (WrapError ''unexpected, busy'' ErrUnexpected)
   \<and> \<not> is_InternalError (PlainError ''timeout'')
   \<and> formatError (PlainError ''timeout'') = Returns (WrapError ''unexpected, timeout'' ErrUnexpected)
   \<and> formatError (WrapError ''unexpected, timeout'' ErrUnexpected)
       = Returns (WrapError ''unexpected, unexpected, timeout'' ErrUnexpected)
   \<and> is_InternalError (PairUnsupportedError (WithObjectMode ModeDir))
   \<and> formatError (PairUnsupportedError (WithObjectMode ModeDir))
       = Returns (PairUnsupportedError (WithObjectMode ModeDir))
   \<and> is_InternalError IterateDone
   \<and> formatError IterateDone = Returns IterateDone"
  using formatError_mapping [of "''busy''" 500 "PlainError ''timeout''"]
    formatError_mapping [of "''busy''" 500 "PairUnsupportedError (WithObjectMode ModeDir)"]
    formatError_mapping [of "''busy''" 500 IterateDone]
  by (simp add: AccessDenied_def NoSuchKey_def Errorf_w_v_def ErrUnexpected_def)

text \<open>
  C8, as the claim has it, asks that the original error is the wrapped cause of the
  result and can be recovered from it. The cause that \<open>formatError\<close> wraps is the kind;
  the original error is not on the chain of the result, and two different errors with
  the same text give the same result.
\<close>

theorem formatError_cause_counterexample:
  "formatError (PlainError ''boom'') = Returns (WrapError ''unexpected, boom'' ErrUnexpected)
   \<and> Unwrap (WrapError ''unexpected, boom'' ErrUnexpected) \<noteq> Some (PlainError ''boom'')
   \<and> \<not> errors_Is (WrapError ''unexpected, boom'' ErrUnexpected) (PlainError ''boom'')
   \<and> formatError (PlainError ''boom'') = formatError (ServerErrorVal 7 ''boom'')"
  by (simp add: Errorf_w_v_def errors_Is_def ErrUnexpected_def)

text \<open>
  C8, amended. For every error that \<open>formatError\<close> maps to a kind (every error that is
  no go-storage error and no nil pointer), \<open>formatError\<close> returns: it raises nothing.
  The result wraps the kind, which is one of permission denied, object not exist and
  unexpected, as its only cause, and its text is the text of the kind, a comma and the
  text of the original error.
\<close>

theorem formatError_keeps_text:
  "\<not> is_InternalError e \<and> e \<noteq> ServerErrorNil \<longrightarrow>
     (\<exists>kind \<in> {ErrPermissionDenied, ErrObjectNotExist, ErrUnexpected}.
        formatError e = Returns (WrapError (Error kind @ '', '' @ Error e) kind)
        \<and> Unwrap (WrapError (Error kind @ '', '' @ Error e) kind) = Some kind
        \<and> chain (WrapError (Error kind @ '', '' @ Error e) kind)
            = [WrapError (Error kind @ '', '' @ Error e) kind, kind])"
  by (cases e)
     (simp_all add: Errorf_w_v_def ErrPermissionDenied_def ErrObjectNotExist_def ErrUnexpected_def)

theorem formatError_keeps_text_witness:
  "\<not> is_InternalError (ServerErrorPtr NoSuchKey ''gone'')
   \<and> ServerErrorPtr NoSuchKey ''gone'' \<noteq> ServerErrorNil
   \<and> formatError (ServerErrorPtr NoSuchKey ''gone'')
       = Returns (WrapError ''object not exist, gone'' ErrObjectNotExist)"
  using formatError_keeps_text [of "ServerErrorPtr NoSuchKey ''gone''"]
  by (simp add: Errorf_w_v_def ErrPermissionDenied_def ErrObjectNotExist_def ErrUnexpected_def
        AccessDenied_def NoSuchKey_def)

section \<open>delete\<close>

text \<open>What \<open>delete\<close> does with the answer of the backend, when it reaches the backend.\<close>

lemma delete_result:
  assumes "\<not> (HasObjectMode opt \<and> ObjectMode_IsDir (ObjectMode opt) \<and> \<not> VirtualDir (features s))"
    and "DeleteFile (client s) (backendKey s path opt) c = (r, c')"
  shows "delete s path opt c =
     (case r of
        None \<Rightarrow> (None, c')
      | Some err \<Rightarrow>
          (case err of
             ServerErrorVal code msg \<Rightarrow> (if code = NoSuchKey then (None, c') else (Some err, c'))
           | _ \<Rightarrow> (Some err, c')))"
  using assms by (auto simp: delete_def backendKey_def Let_def split: option.splits)

text \<open>
  C2. What \<open>delete\<close> does when it is called twice on one key and the backend fails the
  second call because the key is gone. When the failure is a \<^verbatim>\<open>*uerr.ServerError\<close> of code
  \<^verbatim>\<open>NoSuchKey\<close>, or a plain error, the assertion of \<open>delete\<close> to \<^verbatim>\<open>uerr.ServerError\<close> by
  value does not match it: the first call returns no error and the second returns the
  backend's error. Only a \<^verbatim>\<open>uerr.ServerError\<close> held by value is taken for success.
\<close>

theorem delete_twice_returns_backend_error:
  "fst (delete ex_storage_ptr ''a.txt'' ex_file_opt ex_backend) = None
   \<and> fst (delete ex_storage_ptr ''a.txt'' ex_file_opt
             (snd (delete ex_storage_ptr ''a.txt'' ex_file_opt ex_backend)))
       = Some (ServerErrorPtr NoSuchKey ''no such key'')
   \<and> fst (delete ex_storage_plain ''a.txt'' ex_file_opt ex_backend) = None
   \<and> fst (delete ex_storage_plain ''a.txt'' ex_file_opt
             (snd (delete ex_storage_plain ''a.txt'' ex_file_opt ex_backend)))
       = Some (PlainError ''Remote response code is 404'')
   \<and> fst (delete ex_storage ''a.txt'' ex_file_opt ex_backend) = None
   \<and> fst (delete ex_storage ''a.txt'' ex_file_opt
             (snd (delete ex_storage ''a.txt'' ex_file_opt ex_backend)))
       = None"
  by (simp add: delete_def ex_storage_ptr_def ex_storage_plain_def ex_storage_def ex_file_opt_def
        ex_backend_def stub_client_failing_def stub_DeleteFile_failing_def stub_defs path_defs
        Let_def)

section \<open>The listing engine\<close>

text \<open>
  C1. For every backend list response whose sizes parse, so that the page is produced,
  the page fetch (in directory mode and in prefix mode) returns \<open>IterateDone\<close> if and
  only if the continuation token is empty or the truncated flag is false; otherwise it
  returns no error and stores the token as the cursor's marker, so that another page
  can be fetched. On a stub that answers three truncated pages with non-empty tokens
  and then a page that is not truncated, whatever the pages hold (empty pages too), the
  first three fetches ask for more, each with the marker of the page before, and the
  fourth returns \<open>IterateDone\<close>: the stub has then been asked exactly four times.
\<close>

theorem listing_ends_on_empty_marker_or_not_truncated:
  "(\<forall>out c'. ListObjects (client s) (prefix st) (marker st) (delimiter st) (maxKeys st) c
                = (Inr out, c')
             \<and> (\<forall>v \<in> set (Contents out). \<exists>n. ParseInt (Size v) = Inr n) \<longrightarrow>
        (fst (nextPage f s \<lparr>Status = st, Data = d\<rparr> c) = Some IterateDone
           \<longleftrightarrow> NextMarker out = [] \<or> \<not> IsTruncated out)
      \<and> (NextMarker out \<noteq> [] \<and> IsTruncated out \<longrightarrow>
           fst (nextPage f s \<lparr>Status = st, Data = d\<rparr> c) = None
         \<and> marker (Status (fst (snd (nextPage f s \<lparr>Status = st, Data = d\<rparr> c)))) = NextMarker out))
   \<and> (client s = stub_client \<and> script b = pa # pb # pc # pd # rest
        \<and> (\<forall>p \<in> set [pa, pb, pc]. IsTruncated p \<and> NextMarker p \<noteq> [])
        \<and> \<not> IsTruncated pd
        \<and> (\<forall>p \<in> set [pa, pb, pc, pd]. \<forall>v \<in> set (Contents p). \<exists>n. ParseInt (Size v) = Inr n)
        \<longrightarrow>
        (\<exists>da db dc dd ba bb bc bd.
           nextPage f s \<lparr>Status = st, Data = []\<rparr> b
             = (None, \<lparr>Status = st\<lparr>marker := NextMarker pa\<rparr>, Data = da\<rparr>, ba)
         \<and> nextPage f s \<lparr>Status = st\<lparr>marker := NextMarker pa\<rparr>, Data = []\<rparr> ba
             = (None, \<lparr>Status = st\<lparr>marker := NextMarker pb\<rparr>, Data = db\<rparr>, bb)
         \<and> nextPage f s \<lparr>Status = st\<lparr>marker := NextMarker pb\<rparr>, Data = []\<rparr> bb
             = (None, \<lparr>Status = st\<lparr>marker := NextMarker pc\<rparr>, Data = dc\<rparr>, bc)
         \<and> nextPage f s \<lparr>Status = st\<lparr>marker := NextMarker pc\<rparr>, Data = []\<rparr> bc
             = (Some IterateDone, \<lparr>Status = st\<lparr>marker := NextMarker pc\<rparr>, Data = dd\<rparr>, bd)
         \<and> script bd = rest
         \<and> calls bd = calls b @ [list_call st (marker st), list_call st (NextMarker pa),
                                  list_call st (NextMarker pb), list_call st (NextMarker pc)]))"
proof (intro conjI allI impI)
  fix out c'
  assume a: "ListObjects (client s) (prefix st) (marker st) (delimiter st) (maxKeys st) c
                = (Inr out, c')
             \<and> (\<forall>v \<in> set (Contents out). \<exists>n. ParseInt (Size v) = Inr n)"
  then have lo: "ListObjects (client s) (prefix st) (marker st) (delimiter st) (maxKeys st) c
                = (Inr out, c')"
    and ok: "\<forall>v \<in> set (Contents out). \<exists>n. ParseInt (Size v) = Inr n" by simp_all
  from nextPage_ok [OF lo ok, where d = d and f = f] obtain files where
    n: "nextPage f s \<lparr>Status = st, Data = d\<rparr> c =
       (let objs = d @ (case f of ByDir \<Rightarrow> map (dirObject s) (CommonPrefixes out)
                                | ByPrefix \<Rightarrow> []) @ files
        in if NextMarker out = [] \<or> \<not> IsTruncated out
           then (Some IterateDone, \<lparr>Status = st, Data = objs\<rparr>, c')
           else (None, \<lparr>Status = st\<lparr>marker := NextMarker out\<rparr>, Data = objs\<rparr>, c'))"
    by blast
  show "fst (nextPage f s \<lparr>Status = st, Data = d\<rparr> c) = Some IterateDone
           \<longleftrightarrow> NextMarker out = [] \<or> \<not> IsTruncated out"
    by (simp add: n Let_def)
  assume "NextMarker out \<noteq> [] \<and> IsTruncated out"
  then show "fst (nextPage f s \<lparr>Status = st, Data = d\<rparr> c) = None"
    and "marker (Status (fst (snd (nextPage f s \<lparr>Status = st, Data = d\<rparr> c)))) = NextMarker out"
    by (simp_all add: n Let_def)
next
  assume a: "client s = stub_client \<and> script b = pa # pb # pc # pd # rest
        \<and> (\<forall>p \<in> set [pa, pb, pc]. IsTruncated p \<and> NextMarker p \<noteq> [])
        \<and> \<not> IsTruncated pd
        \<and> (\<forall>p \<in> set [pa, pb, pc, pd]. \<forall>v \<in> set (Contents p). \<exists>n. ParseInt (Size v) = Inr n)"
  then have cl: "client s = stub_client" and sc: "script b = pa # pb # pc # pd # rest"
    and tr: "\<forall>p \<in> set [pa, pb, pc]. IsTruncated p \<and> NextMarker p \<noteq> []"
    and la: "\<not> IsTruncated pd"
    and ok: "\<forall>p \<in> set [pa, pb, pc, pd]. \<forall>v \<in> set (Contents p). \<exists>n. ParseInt (Size v) = Inr n"
    by blast+
  from four_fetches [OF cl sc tr la ok, of f st]
  show "\<exists>da db dc dd ba bb bc bd.
           nextPage f s \<lparr>Status = st, Data = []\<rparr> b
             = (None, \<lparr>Status = st\<lparr>marker := NextMarker pa\<rparr>, Data = da\<rparr>, ba)
         \<and> nextPage f s \<lparr>Status = st\<lparr>marker := NextMarker pa\<rparr>, Data = []\<rparr> ba
             = (None, \<lparr>Status = st\<lparr>marker := NextMarker pb\<rparr>, Data = db\<rparr>, bb)
         \<and> nextPage f s \<lparr>Status = st\<lparr>marker := NextMarker pb\<rparr>, Data = []\<rparr> bb
             = (None, \<lparr>Status = st\<lparr>marker := NextMarker pc\<rparr>, Data = dc\<rparr>, bc)
         \<and> nextPage f s \<lparr>Status = st\<lparr>marker := NextMarker pc\<rparr>, Data = []\<rparr> bc
             = (Some IterateDone, \<lparr>Status = st\<lparr>marker := NextMarker pc\<rparr>, Data = dd\<rparr>, bd)
         \<and> script bd = rest
         \<and> calls bd = calls b @ [list_call st (marker st), list_call st (NextMarker pa),
                                  list_call st (NextMarker pb), list_call st (NextMarker pc)]" .
qed

theorem listing_ends_on_empty_marker_or_not_truncated_witness:
  "client ex_storage = stub_client
   \<and> script ex_backend = [ex_page_a, ex_page_b, ex_page_c, ex_page_d]
   \<and> Contents ex_page_b = [] \<and> Contents ex_page_d = []
   \<and> fst (nextPage ByDir ex_storage \<lparr>Status = ex_cursor, Data = []\<rparr> ex_backend) = None
   \<and> marker (Status (fst (snd (nextPage ByDir ex_storage \<lparr>Status = ex_cursor, Data = []\<rparr> ex_backend))))
       = ''m1''
   \<and> (\<exists>da db dc dd ba bb bc bd.
         nextPage ByDir ex_storage \<lparr>Status = ex_cursor, Data = []\<rparr> ex_backend
           = (None, \<lparr>Status = ex_cursor\<lparr>marker := ''m1''\<rparr>, Data = da\<rparr>, ba)
       \<and> nextPage ByDir ex_storage \<lparr>Status = ex_cursor\<lparr>marker := ''m1''\<rparr>, Data = []\<rparr> ba
           = (None, \<lparr>Status = ex_cursor\<lparr>marker := ''m2''\<rparr>, Data = db\<rparr>, bb)
       \<and> nextPage ByDir ex_storage \<lparr>Status = ex_cursor\<lparr>marker := ''m2''\<rparr>, Data = []\<rparr> bb
           = (None, \<lparr>Status = ex_cursor\<lparr>marker := ''m3''\<rparr>, Data = dc\<rparr>, bc)
       \<and> nextPage ByDir ex_storage \<lparr>Status = ex_cursor\<lparr>marker := ''m3''\<rparr>, Data = []\<rparr> bc
           = (Some IterateDone, \<lparr>Status = ex_cursor\<lparr>marker := ''m3''\<rparr>, Data = dd\<rparr>, bd)
       \<and> script bd = []
       \<and> calls bd = [ListObjects_call ''data/'' [] ''/'' 200, ListObjects_call ''data/'' ''m1'' ''/'' 200,
                      ListObjects_call ''data/'' ''m2'' ''/'' 200, ListObjects_call ''data/'' ''m3'' ''/'' 200])"
proof -
  let ?b1 = "ex_backend\<lparr>calls := [ListObjects_call ''data/'' [] ''/'' 200],
                         script := [ex_page_b, ex_page_c, ex_page_d]\<rparr>"
  note t = listing_ends_on_empty_marker_or_not_truncated
    [where s = ex_storage and f = ByDir and st = ex_cursor and c = ex_backend and d = "[]"
       and b = ex_backend and pa = ex_page_a and pb = ex_page_b and pc = ex_page_c
       and pd = ex_page_d and rest = "[]"]
  have cl: "client ex_storage = stub_client"
    by (simp add: ex_storage_def stub_storage_def)
  have sc: "script ex_backend = [ex_page_a, ex_page_b, ex_page_c, ex_page_d]"
    by (simp add: ex_backend_def stub_backend_def)
  have em: "Contents ex_page_b = []" "Contents ex_page_d = []"
    by (simp_all add: ex_page_b_def ex_page_d_def)
  have tr: "\<forall>p \<in> set [ex_page_a, ex_page_b, ex_page_c]. IsTruncated p \<and> NextMarker p \<noteq> []"
    by (simp add: ex_page_a_def ex_page_b_def ex_page_c_def)
  have la: "\<not> IsTruncated ex_page_d"
    by (simp add: ex_page_d_def)
  have ok: "\<forall>p \<in> set [ex_page_a, ex_page_b, ex_page_c, ex_page_d].
              \<forall>v \<in> set (Contents p). \<exists>n. ParseInt (Size v) = Inr n"
    by (simp add: ex_page_a_def ex_page_b_def ex_page_c_def ex_page_d_def ex_file_def
          ParseInt_def ParseUint_def isDigit_def)
  have lo: "ListObjects (client ex_storage) (prefix ex_cursor) (marker ex_cursor)
              (delimiter ex_cursor) (maxKeys ex_cursor) ex_backend = (Inr ex_page_a, ?b1)"
    by (simp add: ex_storage_def ex_cursor_def ex_backend_def stub_defs Let_def)
  have oka: "\<forall>v \<in> set (Contents ex_page_a). \<exists>n. ParseInt (Size v) = Inr n"
    using ok by simp
  from t [THEN conjunct1, rule_format, of ex_page_a ?b1] lo oka
  have n: "fst (nextPage ByDir ex_storage \<lparr>Status = ex_cursor, Data = []\<rparr> ex_backend) = None"
    "marker (Status (fst (snd (nextPage ByDir ex_storage \<lparr>Status = ex_cursor, Data = []\<rparr> ex_backend))))
       = ''m1''"
    by (simp_all add: ex_page_a_def)
  have mk: "NextMarker ex_page_a = ''m1''" "NextMarker ex_page_b = ''m2''"
    "NextMarker ex_page_c = ''m3''"
    by (simp_all add: ex_page_a_def ex_page_b_def ex_page_c_def)
  have lc: "calls ex_backend @ [list_call ex_cursor (marker ex_cursor), list_call ex_cursor ''m1'',
                                list_call ex_cursor ''m2'', list_call ex_cursor ''m3'']
           = [ListObjects_call ''data/'' [] ''/'' 200, ListObjects_call ''data/'' ''m1'' ''/'' 200,
              ListObjects_call ''data/'' ''m2'' ''/'' 200, ListObjects_call ''data/'' ''m3'' ''/'' 200]"
    by (simp add: ex_backend_def stub_backend_def ex_cursor_def list_call_def)
  have f: "\<exists>da db dc dd ba bb bc bd.
         nextPage ByDir ex_storage \<lparr>Status = ex_cursor, Data = []\<rparr> ex_backend
           = (None, \<lparr>Status = ex_cursor\<lparr>marker := NextMarker ex_page_a\<rparr>, Data = da\<rparr>, ba)
       \<and> nextPage ByDir ex_storage \<lparr>Status = ex_cursor\<lparr>marker := NextMarker ex_page_a\<rparr>, Data = []\<rparr> ba
           = (None, \<lparr>Status = ex_cursor\<lparr>marker := NextMarker ex_page_b\<rparr>, Data = db\<rparr>, bb)
       \<and> nextPage ByDir ex_storage \<lparr>Status = ex_cursor\<lparr>marker := NextMarker ex_page_b\<rparr>, Data = []\<rparr> bb
           = (None, \<lparr>Status = ex_cursor\<lparr>marker := NextMarker ex_page_c\<rparr>, Data = dc\<rparr>, bc)
       \<and> nextPage ByDir ex_storage \<lparr>Status = ex_cursor\<lparr>marker := NextMarker ex_page_c\<rparr>, Data = []\<rparr> bc
           = (Some IterateDone, \<lparr>Status = ex_cursor\<lparr>marker := NextMarker ex_page_c\<rparr>, Data = dd\<rparr>, bd)
       \<and> script bd = []
       \<and> calls bd = calls ex_backend @
           [list_call ex_cursor (marker ex_cursor), list_call ex_cursor (NextMarker ex_page_a),
            list_call ex_cursor (NextMarker ex_page_b), list_call ex_cursor (NextMarker ex_page_c)]"
    by (rule t [THEN conjunct2, THEN mp]) (intro conjI; (rule cl sc tr la ok))
  show ?thesis
    using cl sc em n f unfolding mk lc by simp
qed

text \<open>
  C5. When the backend answers a directory-mode fetch with \<open>N\<close> common prefixes and \<open>M\<close>
  content entries whose sizes parse, the fetch appends \<open>N + M\<close> objects to the page: the
  \<open>N\<close> directory objects first, in order, each with the mode \<open>Dir\<close>, done, its \<open>ID\<close> the
  common prefix and its \<open>Path\<close> the prefix stripped of the working directory, then the
  \<open>M\<close> objects that \<open>formatFileObject\<close> makes of the content entries, in order.
\<close>

theorem dir_page_contents:
  assumes lo: "ListObjects (client s) (prefix (Status page)) (marker (Status page))
                 (delimiter (Status page)) (maxKeys (Status page)) c = (Inr out, c')"
    and ok: "\<forall>v \<in> set (Contents out). \<exists>n. ParseInt (Size v) = Inr n"
  shows "\<exists>files r st.
           nextObjectPageByDir s page c
             = (r, \<lparr>Status = st, Data = Data page @ map (dirObject s) (CommonPrefixes out) @ files\<rparr>, c')
         \<and> list_all2 (\<lambda>v o1. formatFileObject s v = Inr o1) (Contents out) files
         \<and> length (map (dirObject s) (CommonPrefixes out) @ files)
             = length (CommonPrefixes out) + length (Contents out)
         \<and> (\<forall>v \<in> set (CommonPrefixes out).
               ObjectMode_IsDir (Mode (dirObject s v)) \<and> done' (dirObject s v)
               \<and> ID (dirObject s v) = Prefix v \<and> Path (dirObject s v) = getRelPath s (Prefix v))"
proof -
  from nextPage_ok [OF lo ok, where d = "Data page" and f = ByDir] obtain files where
    f: "list_all2 (\<lambda>v o1. formatFileObject s v = Inr o1) (Contents out) files"
    and n: "nextPage ByDir s \<lparr>Status = Status page, Data = Data page\<rparr> c =
       (let objs = Data page @ map (dirObject s) (CommonPrefixes out) @ files
        in if NextMarker out = [] \<or> \<not> IsTruncated out
           then (Some IterateDone, \<lparr>Status = Status page, Data = objs\<rparr>, c')
           else (None, \<lparr>Status = (Status page)\<lparr>marker := NextMarker out\<rparr>, Data = objs\<rparr>, c'))"
    by auto
  have d: "ObjectMode_IsDir (Mode (dirObject s v)) \<and> done' (dirObject s v)
               \<and> ID (dirObject s v) = Prefix v \<and> Path (dirObject s v) = getRelPath s (Prefix v)" for v
    by (simp add: dirObject_def newObject_def NewObject_def ObjectMode_IsDir_def ModeDir_def Let_def)
  have len: "length files = length (Contents out)"
    using f by (simp add: list_all2_lengthD)
  have e: "nextObjectPageByDir s page c
             = nextObjectPageByDir s \<lparr>Status = Status page, Data = Data page\<rparr> c"
    by (cases page) simp
  from n have "\<exists>r st. nextObjectPageByDir s page c
             = (r, \<lparr>Status = st, Data = Data page @ map (dirObject s) (CommonPrefixes out) @ files\<rparr>, c')"
    unfolding e by (simp add: nextPage_def Let_def split: if_splits)
  with f d len show ?thesis by auto
qed


theorem dir_page_contents_witness:
  "ListObjects (client ex_storage) (prefix ex_cursor) (marker ex_cursor) (delimiter ex_cursor)
      (maxKeys ex_cursor) ex_backend
     = (Inr ex_page_a, ex_backend\<lparr>calls := [ListObjects_call ''data/'' [] ''/'' 200],
                                   script := [ex_page_b, ex_page_c, ex_page_d]\<rparr>)
   \<and> ParseInt (Size (ex_file ''data/a.txt'')) = Inr 42
   \<and> map ID (Data (fst (snd (nextObjectPageByDir ex_storage \<lparr>Status = ex_cursor, Data = []\<rparr> ex_backend))))
       = [''data/sub/'', ''data/a.txt'']
   \<and> map Path (Data (fst (snd (nextObjectPageByDir ex_storage \<lparr>Status = ex_cursor, Data = []\<rparr> ex_backend))))
       = [''sub/'', ''a.txt'']
   \<and> map (\<lambda>o1. ObjectMode_IsDir (Mode o1))
         (Data (fst (snd (nextObjectPageByDir ex_storage \<lparr>Status = ex_cursor, Data = []\<rparr> ex_backend))))
       = [True, False]
   \<and> map done' (Data (fst (snd (nextObjectPageByDir ex_storage \<lparr>Status = ex_cursor, Data = []\<rparr> ex_backend))))
       = [True, False]"
proof -
  let ?b1 = "ex_backend\<lparr>calls := [ListObjects_call ''data/'' [] ''/'' 200],
                         script := [ex_page_b, ex_page_c, ex_page_d]\<rparr>"
  let ?page = "\<lparr>Status = ex_cursor, Data = []\<rparr>"
  have lo: "ListObjects (client ex_storage) (prefix (Status ?page)) (marker (Status ?page))
              (delimiter (Status ?page)) (maxKeys (Status ?page)) ex_backend = (Inr ex_page_a, ?b1)"
    by (simp add: ex_storage_def ex_cursor_def ex_backend_def stub_defs Let_def)
  have p: "ParseInt (Size (ex_file ''data/a.txt'')) = Inr 42"
    by (simp add: ex_file_def ParseInt_def ParseUint_def isDigit_def)
  have ok: "\<forall>v \<in> set (Contents ex_page_a). \<exists>n. ParseInt (Size v) = Inr n"
    by (simp add: ex_page_a_def p)
  from dir_page_contents [OF lo ok] obtain files r st where
    n: "nextObjectPageByDir ex_storage ?page ex_backend
          = (r, \<lparr>Status = st, Data = Data ?page @ map (dirObject ex_storage) (CommonPrefixes ex_page_a) @ files\<rparr>, ?b1)"
    and f: "list_all2 (\<lambda>v o1. formatFileObject ex_storage v = Inr o1) (Contents ex_page_a) files"
    by (elim exE conjE)
  from f obtain o1 where o1: "files = [o1]"
      "formatFileObject ex_storage (ex_file ''data/a.txt'') = Inr o1"
    by (auto simp: ex_page_a_def list_all2_Cons1)
  from o1(2) have o: "ID o1 = ''data/a.txt''" "Path o1 = ''a.txt''" "\<not> ObjectMode_IsDir (Mode o1)"
      "\<not> done' o1"
    by (auto simp: ex_file_def ex_storage_def stub_storage_def path_defs object_defs Let_def)
  have d: "map (dirObject ex_storage) (CommonPrefixes ex_page_a)
             = [\<lparr>ID = ''data/sub/'', Path = ''sub/'', Mode = 1, done' = True,
                 contentLength = None, lastModified = None, contentType = None,
                 etag = None, systemMetadata = None\<rparr>]"
    by (simp add: ex_page_a_def ex_storage_def stub_storage_def path_defs object_defs Let_def)
  have lo2: "ListObjects (client ex_storage) (prefix ex_cursor) (marker ex_cursor) (delimiter ex_cursor)
      (maxKeys ex_cursor) ex_backend = (Inr ex_page_a, ?b1)"
    using lo by simp
  show ?thesis
    using lo2 p o by (simp add: n d o1(1) ObjectMode_IsDir_def ModeDir_def)
qed

text \<open>
  C9. A page fetch, in either mode and whatever its outcome, leaves the cursor's
  \<open>prefix\<close>, \<open>maxKeys\<close> and \<open>delimiter\<close> as they were. The marker changes only when the
  fetch returns no error, which it does only on a truncated response with a non-empty
  token; on a terminal page and on a failure the marker keeps its value.
\<close>

theorem cursor_fields_kept:
  assumes "nextPage f s page c = (r, page', c')"
  shows "prefix (Status page') = prefix (Status page)
       \<and> maxKeys (Status page') = maxKeys (Status page)
       \<and> delimiter (Status page') = delimiter (Status page)
       \<and> (r \<noteq> None \<longrightarrow> marker (Status page') = marker (Status page))
       \<and> (\<forall>out. fst (ListObjects (client s) (prefix (Status page)) (marker (Status page))
                         (delimiter (Status page)) (maxKeys (Status page)) c) = Inr out
                 \<and> (NextMarker out = [] \<or> \<not> IsTruncated out)
               \<longrightarrow> marker (Status page') = marker (Status page))
       \<and> (r = None \<longrightarrow>
            (\<exists>out. fst (ListObjects (client s) (prefix (Status page)) (marker (Status page))
                         (delimiter (Status page)) (maxKeys (Status page)) c) = Inr out
                  \<and> NextMarker out \<noteq> [] \<and> IsTruncated out
                  \<and> marker (Status page') = NextMarker out))"
proof -
  note n = nextPage_cursor [OF assms]
  have "r \<noteq> None" if "fst (ListObjects (client s) (prefix (Status page)) (marker (Status page))
                         (delimiter (Status page)) (maxKeys (Status page)) c) = Inr out"
      "NextMarker out = [] \<or> \<not> IsTruncated out" for out
    using n that by auto
  with n show ?thesis by blast
qed

theorem cursor_fields_kept_witness:
  "fst (nextPage ByDir ex_storage \<lparr>Status = ex_cursor, Data = []\<rparr> ex_backend) = None
   \<and> Status (fst (snd (nextPage ByDir ex_storage \<lparr>Status = ex_cursor, Data = []\<rparr> ex_backend)))
       = \<lparr>prefix = ''data/'', maxKeys = 200, delimiter = ''/'', marker = ''m1''\<rparr>
   \<and> fst (nextPage ByPrefix ex_storage \<lparr>Status = ex_cursor\<lparr>marker := ''m3''\<rparr>, Data = []\<rparr>
             (ex_backend\<lparr>script := [ex_page_d]\<rparr>)) = Some IterateDone
   \<and> fst (ListObjects (client ex_storage) ''data/'' ''m3'' ''/'' 200 (ex_backend\<lparr>script := [ex_page_d]\<rparr>))
       = Inr ex_page_d
   \<and> \<not> IsTruncated ex_page_d
   \<and> Status (fst (snd (nextPage ByPrefix ex_storage \<lparr>Status = ex_cursor\<lparr>marker := ''m3''\<rparr>, Data = []\<rparr>
             (ex_backend\<lparr>script := [ex_page_d]\<rparr>))))
       = \<lparr>prefix = ''data/'', maxKeys = 200, delimiter = ''/'', marker = ''m3''\<rparr>"
proof -
  let ?p1 = "\<lparr>Status = ex_cursor, Data = []\<rparr>"
  let ?p2 = "\<lparr>Status = ex_cursor\<lparr>marker := ''m3''\<rparr>, Data = []\<rparr>"
  let ?b2 = "ex_backend\<lparr>script := [ex_page_d]\<rparr>"
  let ?n1 = "nextPage ByDir ex_storage ?p1 ex_backend"
  let ?n2 = "nextPage ByPrefix ex_storage ?p2 ?b2"
  have r1: "fst ?n1 = None"
    by (simp add: ex_defs stub_defs path_defs object_defs page_defs Let_def)
  have r2: "fst ?n2 = Some IterateDone"
    by (simp add: ex_defs stub_defs path_defs object_defs page_defs Let_def)
  have lo: "fst (ListObjects (client ex_storage) ''data/'' ''m3'' ''/'' 200 ?b2) = Inr ex_page_d"
    by (simp add: ex_storage_def ex_backend_def stub_defs Let_def)
  have nt: "\<not> IsTruncated ex_page_d" by (simp add: ex_page_d_def)
  have e1: "?n1 = (fst ?n1, fst (snd ?n1), snd (snd ?n1))" by simp
  have e2: "?n2 = (fst ?n2, fst (snd ?n2), snd (snd ?n2))" by simp
  note k1 = cursor_fields_kept [OF e1]
  note k2 = cursor_fields_kept [OF e2]
  from k1 r1 obtain out where
    m1: "fst (ListObjects (client ex_storage) (prefix (Status ?p1)) (marker (Status ?p1))
                (delimiter (Status ?p1)) (maxKeys (Status ?p1)) ex_backend) = Inr out"
        "marker (Status (fst (snd ?n1))) = NextMarker out"
    by blast
  from m1(1) have "out = ex_page_a"
    by (simp add: ex_storage_def ex_cursor_def ex_backend_def stub_defs Let_def)
  with m1(2) have mk1: "marker (Status (fst (snd ?n1))) = ''m1''"
    by (simp add: ex_page_a_def)
  from k1 have f1: "prefix (Status (fst (snd ?n1))) = ''data/''"
      "maxKeys (Status (fst (snd ?n1))) = 200" "delimiter (Status (fst (snd ?n1))) = ''/''"
    by (simp_all add: ex_cursor_def)
  from k2 r2 have f2: "prefix (Status (fst (snd ?n2))) = ''data/''"
      "maxKeys (Status (fst (snd ?n2))) = 200" "delimiter (Status (fst (snd ?n2))) = ''/''"
      "marker (Status (fst (snd ?n2))) = ''m3''"
    by (simp_all add: ex_cursor_def)
  have s1: "Status (fst (snd ?n1)) = \<lparr>prefix = ''data/'', maxKeys = 200, delimiter = ''/'', marker = ''m1''\<rparr>"
    using f1 mk1 by (cases "Status (fst (snd ?n1))") simp
  have s2: "Status (fst (snd ?n2)) = \<lparr>prefix = ''data/'', maxKeys = 200, delimiter = ''/'', marker = ''m3''\<rparr>"
    using f2 by (cases "Status (fst (snd ?n2))") simp
  show ?thesis
    using r1 r2 lo nt s1 s2 by simp
qed

section \<open>The object formatter\<close>

text \<open>
  C6. Both input shapes give an instant of the same type. A listing entry with the size
  \<^verbatim>\<open>"42"\<close> and the modification time 1000000000000 ms is formatted with the content
  length 42 and the Unix time 1000000000 s; in general the milliseconds are divided by
  1000, truncating. A stat response with the headers \<^verbatim>\<open>Content-Length: 42\<close> and
  \<^verbatim>\<open>Last-Modified: Mon, 02 Jan 2006 15:04:05 GMT\<close> gives the content length 42 and the
  instant that \<^verbatim>\<open>time.Parse\<close> reads from the header with the layout \<^verbatim>\<open>RFC1123\<close>. A size
  that does not parse fails \<open>formatFileObject\<close> and the page fetch, which returns the
  parse error; a content length or a modification time that does not parse fails \<open>stat\<close>.
\<close>

theorem timestamps_normalized:
  "(\<exists>o1. formatFileObject s \<lparr>Key = k, Size = ''42'', LastModified = 1000000000000, Etag = e,
                              StorageClass = sc\<rparr> = Inr o1
         \<and> contentLength o1 = Some 42 \<and> lastModified o1 = Some (UnixTime 1000000000 0))
   \<and> (\<forall>n. ParseInt (Size v) = Inr n \<longrightarrow>
         (\<exists>o1. formatFileObject s v = Inr o1 \<and> contentLength o1 = Some n
               \<and> lastModified o1 = Some (UnixTime (LastModified v sdiv 1000) 0)))
   \<and> (\<forall>err. ParseInt (Size v) = Inl err \<longrightarrow>
         formatFileObject s v = Inl err
         \<and> (\<forall>out cb. v \<in> set (Contents out)
               \<and> ListObjects (client s) (prefix st) (marker st) (delimiter st) (maxKeys st) c
                   = (Inr out, cb) \<longrightarrow>
              (\<exists>kind num. fst (nextPage f s \<lparr>Status = st, Data = d\<rparr> c) = Some (NumError kind num))))
   \<and> (\<not> (HasObjectMode opt \<and> ObjectMode_IsDir (ObjectMode opt) \<and> \<not> VirtualDir (features s))
        \<and> HeadFile (client s) (backendKey s path opt) c = (None, c')
        \<and> LastResponseHeader (client s) c' ''Content-Length'' = ''42''
        \<and> LastResponseHeader (client s) c' ''Last-Modified'' = ''Mon, 02 Jan 2006 15:04:05 GMT'' \<longrightarrow>
        (\<forall>t. tp RFC1123 ''Mon, 02 Jan 2006 15:04:05 GMT'' = Inr t \<longrightarrow>
           (\<exists>o1. stat tp s path opt c = (Inr o1, c') \<and> contentLength o1 = Some 42
                 \<and> lastModified o1 = Some t))
      \<and> (\<forall>err. tp RFC1123 ''Mon, 02 Jan 2006 15:04:05 GMT'' = Inl err \<longrightarrow>
           stat tp s path opt c = (Inl err, c')))
   \<and> (\<not> (HasObjectMode opt \<and> ObjectMode_IsDir (ObjectMode opt) \<and> \<not> VirtualDir (features s))
        \<and> HeadFile (client s) (backendKey s path opt) c = (None, c') \<longrightarrow>
        (\<forall>err. LastResponseHeader (client s) c' ''Content-Length'' \<noteq> []
               \<and> ParseInt (LastResponseHeader (client s) c' ''Content-Length'') = Inl err \<longrightarrow>
           stat tp s path opt c = (Inl err, c'))
      \<and> (\<forall>err. (LastResponseHeader (client s) c' ''Content-Length'' = []
                 \<or> (\<exists>n. ParseInt (LastResponseHeader (client s) c' ''Content-Length'') = Inr n))
               \<and> LastResponseHeader (client s) c' ''Last-Modified'' \<noteq> []
               \<and> tp RFC1123 (LastResponseHeader (client s) c' ''Last-Modified'') = Inl err \<longrightarrow>
           stat tp s path opt c = (Inl err, c')))"
  (is "?A \<and> ?B \<and> ?C \<and> ?D \<and> ?E")
proof -
  have a: ?A
    using formatFileObject_parsed [of "\<lparr>Key = k, Size = ''42'', LastModified = 1000000000000,
                                       Etag = e, StorageClass = sc\<rparr>" 42 s]
    by (simp add: ParseInt_42)
  have b: ?B
    using formatFileObject_parsed [of v _ s] by blast
  have c: ?C
    using nextPage_parse_failure [of s st c _ _ v _ f d]
    by (auto simp: formatFileObject_Inl_iff)
  have d: ?D
  proof (intro impI, elim conjE)
    assume g: "\<not> (HasObjectMode opt \<and> ObjectMode_IsDir (ObjectMode opt) \<and> \<not> VirtualDir (features s))"
      and h: "HeadFile (client s) (backendKey s path opt) c = (None, c')"
      and cl: "LastResponseHeader (client s) c' ''Content-Length'' = ''42''"
      and lm: "LastResponseHeader (client s) c' ''Last-Modified'' = ''Mon, 02 Jan 2006 15:04:05 GMT''"
    show "(\<forall>t. tp RFC1123 ''Mon, 02 Jan 2006 15:04:05 GMT'' = Inr t \<longrightarrow>
           (\<exists>o1. stat tp s path opt c = (Inr o1, c') \<and> contentLength o1 = Some 42
                 \<and> lastModified o1 = Some t))
      \<and> (\<forall>err. tp RFC1123 ''Mon, 02 Jan 2006 15:04:05 GMT'' = Inl err \<longrightarrow>
           stat tp s path opt c = (Inl err, c'))"
      unfolding stat_HeadFile_ok [OF g h]
      by (simp add: stat_ContentLength_def stat_LastModified_def cl lm ParseInt_42
            stat_metadata_keeps)
  qed
  have e: ?E
  proof (intro impI, elim conjE)
    assume g: "\<not> (HasObjectMode opt \<and> ObjectMode_IsDir (ObjectMode opt) \<and> \<not> VirtualDir (features s))"
      and h: "HeadFile (client s) (backendKey s path opt) c = (None, c')"
    show "(\<forall>err. LastResponseHeader (client s) c' ''Content-Length'' \<noteq> []
               \<and> ParseInt (LastResponseHeader (client s) c' ''Content-Length'') = Inl err \<longrightarrow>
           stat tp s path opt c = (Inl err, c'))
      \<and> (\<forall>err. (LastResponseHeader (client s) c' ''Content-Length'' = []
                 \<or> (\<exists>n. ParseInt (LastResponseHeader (client s) c' ''Content-Length'') = Inr n))
               \<and> LastResponseHeader (client s) c' ''Last-Modified'' \<noteq> []
               \<and> tp RFC1123 (LastResponseHeader (client s) c' ''Last-Modified'') = Inl err \<longrightarrow>
           stat tp s path opt c = (Inl err, c'))"
      unfolding stat_HeadFile_ok [OF g h]
      by (auto simp: stat_ContentLength_def stat_LastModified_def)
  qed
  from a b c d e show ?thesis by (intro conjI)
qed


theorem timestamps_normalized_witness:
  "ParseInt (Size ex_bad_file) = Inl (NumError ErrSyntax ''4x'')
   \<and> formatFileObject ex_storage ex_bad_file = Inl (NumError ErrSyntax ''4x'')
   \<and> HeadFile (client ex_storage) ''data/a.txt'' ex_backend
       = (None, ex_backend\<lparr>calls := [HeadFile_call ''data/a.txt'']\<rparr>)
   \<and> stub_time_Parse RFC1123 ''Mon, 02 Jan 2006 15:04:05 GMT'' = Inr (UnixTime 1136214245 0)
   \<and> map_sum id contentLength (fst (stat stub_time_Parse ex_storage ''a.txt'' ex_file_opt ex_backend))
       = Inr (Some 42)
   \<and> map_sum id lastModified (fst (stat stub_time_Parse ex_storage ''a.txt'' ex_file_opt ex_backend))
       = Inr (Some (UnixTime 1136214245 0))"
proof -
  let ?b = "ex_backend\<lparr>calls := [HeadFile_call ''data/a.txt'']\<rparr>"
  note t = timestamps_normalized
    [where s = ex_storage and v = ex_bad_file and opt = ex_file_opt and path = "''a.txt''"
       and c = ex_backend and c' = ?b and tp = stub_time_Parse]
  have p: "ParseInt (Size ex_bad_file) = Inl (NumError ErrSyntax ''4x'')"
    by (simp add: ex_bad_file_def ParseInt_def ParseUint_def isDigit_def)
  from t [THEN conjunct2, THEN conjunct2, THEN conjunct1, rule_format, OF p]
  have f: "formatFileObject ex_storage ex_bad_file = Inl (NumError ErrSyntax ''4x'')"
    by simp
  have g: "\<not> (HasObjectMode ex_file_opt \<and> ObjectMode_IsDir (ObjectMode ex_file_opt)
              \<and> \<not> VirtualDir (features ex_storage))"
    by (simp add: ex_file_opt_def)
  have k: "backendKey ex_storage ''a.txt'' ex_file_opt = ''data/a.txt''"
    by (simp add: backendKey_def ex_file_opt_def ex_storage_def stub_storage_def path_defs)
  have h: "HeadFile (client ex_storage) ''data/a.txt'' ex_backend = (None, ?b)"
    by (simp add: ex_storage_def ex_backend_def stub_defs Let_def)
  have cl: "LastResponseHeader (client ex_storage) ?b ''Content-Length'' = ''42''"
    by (simp add: ex_storage_def ex_backend_def stub_defs)
  have lm: "LastResponseHeader (client ex_storage) ?b ''Last-Modified''
              = ''Mon, 02 Jan 2006 15:04:05 GMT''"
    by (simp add: ex_storage_def ex_backend_def stub_defs)
  have tm: "stub_time_Parse RFC1123 ''Mon, 02 Jan 2006 15:04:05 GMT'' = Inr (UnixTime 1136214245 0)"
    by (simp add: stub_time_Parse_def RFC1123_def num2_def month_number_def days_from_civil_def
          isDigit_def)
  have "\<exists>o1. stat stub_time_Parse ex_storage ''a.txt'' ex_file_opt ex_backend = (Inr o1, ?b)
          \<and> contentLength o1 = Some 42 \<and> lastModified o1 = Some (UnixTime 1136214245 0)"
    by (rule t [THEN conjunct2, THEN conjunct2, THEN conjunct2, THEN conjunct1, THEN mp,
                THEN conjunct1, rule_format])
       (simp_all add: g k h cl lm tm)
  then obtain o1 where
    o: "stat stub_time_Parse ex_storage ''a.txt'' ex_file_opt ex_backend = (Inr o1, ?b)"
       "contentLength o1 = Some 42" "lastModified o1 = Some (UnixTime 1136214245 0)"
    by blast
  show ?thesis
    using p f h tm o by simp
qed


section \<open>Virtual directories\<close>

text \<open>
  C10. When a directory is asked for and virtual directories are supported, \<open>create\<close>,
  \<open>stat\<close> and \<open>delete\<close> use the key made of the working-directory prefix, the relative
  path and a final slash: \<open>create\<close> returns an object with that \<open>ID\<close>, the mode \<open>Dir\<close>
  and the caller's path as \<open>Path\<close>; \<open>stat\<close> sends its head request for that key and
  nothing else to the backend, fails as the request fails, and any object it returns
  has that \<open>ID\<close>, the mode \<open>Dir\<close> and the caller's path; \<open>delete\<close> sends its delete
  request for that key and nothing else.
\<close>

theorem virtual_dir_key:
  assumes hm: "HasObjectMode opt" and dm: "ObjectMode_IsDir (ObjectMode opt)"
    and vd: "VirtualDir (features s)"
    and key: "k = strings_TrimPrefix (workDir s) ''/'' @ path @ ''/''"
  shows "(\<exists>o1. create s path opt = Some o1 \<and> ID o1 = k \<and> ObjectMode_IsDir (Mode o1) \<and> Path o1 = path)
       \<and> snd (stat tp s path opt c) = snd (HeadFile (client s) k c)
       \<and> (\<forall>err. fst (HeadFile (client s) k c) = Some err \<longrightarrow> fst (stat tp s path opt c) = Inl err)
       \<and> (\<forall>o1. fst (stat tp s path opt c) = Inr o1 \<longrightarrow>
             fst (HeadFile (client s) k c) = None
             \<and> ID o1 = k \<and> ObjectMode_IsDir (Mode o1) \<and> Path o1 = path)
       \<and> snd (delete s path opt c) = snd (DeleteFile (client s) k c)
       \<and> fst (delete s path opt c)
           = (case fst (DeleteFile (client s) k c) of
                None \<Rightarrow> None
              | Some err \<Rightarrow>
                  (case err of
                     ServerErrorVal code msg \<Rightarrow> (if code = NoSuchKey then None else Some err)
                   | _ \<Rightarrow> Some err))"
proof -
  have g: "\<not> (HasObjectMode opt \<and> ObjectMode_IsDir (ObjectMode opt) \<and> \<not> VirtualDir (features s))"
    using vd by simp
  have k: "k = getAbsPath s path @ ''/''" "backendKey s path opt = k"
    using hm dm key by (simp_all add: getAbsPath_def backendKey_def Let_def)
  obtain e c2 where h: "HeadFile (client s) k c = (e, c2)"
    by (cases "HeadFile (client s) k c")
  have c1: "\<exists>o1. create s path opt = Some o1 \<and> ID o1 = k \<and> ObjectMode_IsDir (Mode o1) \<and> Path o1 = path"
    using create_dir [OF hm dm vd, of path] k(1) by auto
  have s1: "snd (stat tp s path opt c) = snd (HeadFile (client s) k c)"
  proof (cases e)
    case None
    from stat_HeadFile_ok [OF g, of path c c2 tp] h None k(2) show ?thesis
      by (simp split: sum.splits)
  next
    case (Some err)
    from stat_HeadFile_fail [OF g, of path c err c2 tp] h Some k(2) show ?thesis by simp
  qed
  have s2: "fst (stat tp s path opt c) = Inl err" if "fst (HeadFile (client s) k c) = Some err" for err
    using stat_HeadFile_fail [OF g, of path c err c2 tp] h that k(2) by simp
  have s3: "fst (HeadFile (client s) k c) = None
             \<and> ID o1 = k \<and> ObjectMode_IsDir (Mode o1) \<and> Path o1 = path"
    if "fst (stat tp s path opt c) = Inr o1" for o1
  proof -
    from that have "stat tp s path opt c = (Inr o1, snd (stat tp s path opt c))"
      by (metis prod.collapse)
    from stat_object [OF g this] hm dm k(2) show ?thesis
      by (simp add: ObjectMode_IsDir_def ModeDir_def)
  qed
  have d: "snd (delete s path opt c) = snd (DeleteFile (client s) k c)"
    "fst (delete s path opt c)
           = (case fst (DeleteFile (client s) k c) of
                None \<Rightarrow> None
              | Some err \<Rightarrow>
                  (case err of
                     ServerErrorVal code msg \<Rightarrow> (if code = NoSuchKey then None else Some err)
                   | _ \<Rightarrow> Some err))"
    unfolding delete_dir [OF hm dm vd] k(1)
    by (auto split: prod.splits option.splits go_error.splits)
  from c1 s1 s2 s3 d show ?thesis by blast
qed



theorem virtual_dir_key_witness:
  "HasObjectMode ex_dir_opt \<and> ObjectMode_IsDir (ObjectMode ex_dir_opt)
   \<and> VirtualDir (features ex_storage)
   \<and> map_option ID (create ex_storage ''dir'' ex_dir_opt) = Some ''data/dir/''
   \<and> map_option Path (create ex_storage ''dir'' ex_dir_opt) = Some ''dir''
   \<and> calls (snd (stat stub_time_Parse ex_storage ''dir'' ex_dir_opt ex_backend))
       = [HeadFile_call ''data/dir/'']
   \<and> map_sum id ID (fst (stat stub_time_Parse ex_storage ''dir'' ex_dir_opt ex_backend))
       = Inr ''data/dir/''
   \<and> map_sum id Path (fst (stat stub_time_Parse ex_storage ''dir'' ex_dir_opt ex_backend))
       = Inr ''dir''
   \<and> calls (snd (delete ex_storage ''dir'' ex_dir_opt ex_backend)) = [DeleteFile_call ''data/dir/'']
   \<and> fst (delete ex_storage ''dir'' ex_dir_opt ex_backend) = None"
proof -
  have hm: "HasObjectMode ex_dir_opt" and dm: "ObjectMode_IsDir (ObjectMode ex_dir_opt)"
    and vd: "VirtualDir (features ex_storage)"
    by (simp_all add: ex_dir_opt_def ex_storage_def stub_storage_def ObjectMode_IsDir_def ModeDir_def)
  have key: "''data/dir/'' = strings_TrimPrefix (workDir ex_storage) ''/'' @ ''dir'' @ ''/''"
    by (simp add: ex_storage_def stub_storage_def path_defs)
  note t = virtual_dir_key [OF hm dm vd key, of stub_time_Parse ex_backend]
  from t obtain o1 where c: "create ex_storage ''dir'' ex_dir_opt = Some o1" "ID o1 = ''data/dir/''"
      "Path o1 = ''dir''"
    by blast
  have st: "\<exists>o2. fst (stat stub_time_Parse ex_storage ''dir'' ex_dir_opt ex_backend) = Inr o2"
    by (simp add: stat_defs ex_defs ex_dir_opt_def stub_defs path_defs object_defs Let_def)
  then obtain o2 where o2: "fst (stat stub_time_Parse ex_storage ''dir'' ex_dir_opt ex_backend) = Inr o2"
    by blast
  from t o2 have so: "ID o2 = ''data/dir/''" "Path o2 = ''dir''"
    by blast+
  from t have ss: "snd (stat stub_time_Parse ex_storage ''dir'' ex_dir_opt ex_backend)
                     = snd (HeadFile (client ex_storage) ''data/dir/'' ex_backend)"
    by blast
  from t have ds: "snd (delete ex_storage ''dir'' ex_dir_opt ex_backend)
                     = snd (DeleteFile (client ex_storage) ''data/dir/'' ex_backend)"
    and df: "fst (delete ex_storage ''dir'' ex_dir_opt ex_backend)
           = (case fst (DeleteFile (client ex_storage) ''data/dir/'' ex_backend) of
                None \<Rightarrow> None
              | Some err \<Rightarrow>
                  (case err of
                     ServerErrorVal code msg \<Rightarrow> (if code = NoSuchKey then None else Some err)
                   | _ \<Rightarrow> Some err))"
    by blast+
  have hc: "calls (snd (HeadFile (client ex_storage) ''data/dir/'' ex_backend)) = [HeadFile_call ''data/dir/'']"
    by (simp add: ex_storage_def ex_backend_def stub_defs Let_def)
  have dc: "calls (snd (DeleteFile (client ex_storage) ''data/dir/'' ex_backend)) = [DeleteFile_call ''data/dir/'']"
     "fst (DeleteFile (client ex_storage) ''data/dir/'' ex_backend) = None"
    by (simp_all add: ex_storage_def ex_backend_def stub_defs Let_def)
  show ?thesis
    using hm dm vd c o2 so by (simp add: ss ds df hc dc)
qed


section \<open>read\<close>

text \<open>
  C4. What \<open>read\<close> does after a download that succeeds, on the stub whose response body
  is two bytes: the reader that \<open>read\<close> hands to \<^verbatim>\<open>io.Copy\<close> wraps the nil reader, so the
  first \<^verbatim>\<open>Read\<close> panics, with or without the caller's callback; nothing reaches the sink
  and no count is returned. The same \<^verbatim>\<open>io.Copy\<close> over a reader of the body copies the
  two bytes and shows them to the callback.
\<close>

theorem read_panics_after_download:
  "fst (Download (client ex_storage)
          (GetPrivateURL (client ex_storage) (getAbsPath ex_storage ''a.txt'') (3600 * time_Second)
             ex_backend) ex_backend) = None
   \<and> LastResponseBody (client ex_storage) ex_backend = [104, 105]
   \<and> fst (read ex_storage ''a.txt'' [] \<lparr>HasIoCallback = True\<rparr> ex_backend) = Panic
   \<and> fst (read ex_storage ''a.txt'' [] \<lparr>HasIoCallback = False\<rparr> ex_backend) = Panic
   \<and> io_Copy [] (CallbackReadCloser (BytesReadCloser [104, 105]) IoCallback)
       = Returns \<lparr>n_copied = 2, err_read = None, sink = [104, 105], seen_by_callback = [104, 105]\<rparr>"
  by (simp add: read_def io_Copy_def CallbackReadCloser_def time_Second_def ex_storage_def
        ex_backend_def stub_defs path_defs Let_def)

end
